theory Spec2Isabelle
  imports Complex_Main "HOL-Library.Monad_Syntax"
begin

section \<open>JavaScript values used by the screens\<close>

text \<open>
  A JavaScript string is modelled by \<^typ>\<open>string\<close>: one \<^typ>\<open>char\<close> per code unit,
  for the code units below 256. Numbers that reach a template literal are integers
  (identifiers, miles, points); \<open>show_int\<close> is the decimal text that the template
  literal produces for them. A property that may be absent, \<open>null\<close> or \<open>undefined\<close>
  is an \<^typ>\<open>'a option\<close>.
\<close>

fun show_nat :: "nat \<Rightarrow> string" where
  "show_nat n =
     (if n < 10 then [''0123456789'' ! n]
      else show_nat (n div 10) @ [''0123456789'' ! (n mod 10)])"

declare show_nat.simps [simp del]

definition show_int :: "int \<Rightarrow> string" where
  "show_int i = (if i < 0 then CHR ''-'' # show_nat (nat (- i)) else show_nat (nat i))"

text \<open>
  Truthiness, as \<open>if (x)\<close>, \<open>x || y\<close> and \<open>x && y\<close> read it: a string is truthy
  unless it is empty, a number unless it is zero, an object always; \<open>null\<close> and
  \<open>undefined\<close> are falsy.
\<close>

definition truthy_str :: "string option \<Rightarrow> bool" where
  "truthy_str v = (case v of None \<Rightarrow> False | Some s \<Rightarrow> s \<noteq> [])"

text \<open>A string that may be \<open>null\<close>, read by a truthiness test: the string when truthy.\<close>

definition truthy_value :: "string option \<Rightarrow> string option" where
  "truthy_value v = (if truthy_str v then v else None)"

text \<open>\<open>a || b\<close> on a string that may be \<open>null\<close>, with a string default.\<close>

definition or_str :: "string option \<Rightarrow> string \<Rightarrow> string" where
  "or_str v d = (case v of None \<Rightarrow> d | Some s \<Rightarrow> if s = [] then d else s)"

text \<open>\<open>String.prototype.includes\<close>: the argument occurs as a contiguous substring.\<close>

fun str_includes :: "string \<Rightarrow> string \<Rightarrow> bool" where
  "str_includes [] sub = (sub = [])"
| "str_includes (c # cs) sub = (take (length sub) (c # cs) = sub \<or> str_includes cs sub)"

text \<open>
  \<open>String.prototype.trim\<close> removes the white space and line terminators at both
  ends; the regular-expression class \<open>\s\<close> is the same set of characters. In the
  modelled range these are TAB, LF, VT, FF, CR, SPACE and NO-BREAK SPACE.
\<close>

definition is_js_space :: "char \<Rightarrow> bool" where
  "is_js_space c =
     (c = CHR 0x09 \<or> c = CHR 0x0A \<or> c = CHR 0x0B \<or> c = CHR 0x0C \<or> c = CHR 0x0D
      \<or> c = CHR 0x20 \<or> c = CHR 0xA0)"

definition js_trim :: "string \<Rightarrow> string" where
  "js_trim s = rev (dropWhile is_js_space (rev (dropWhile is_js_space s)))"

text \<open>An alert shown to the user: its title and its message.\<close>

datatype alert = Alert string string

text \<open>An HTTP request as the axios client receives it from the API functions.\<close>

datatype jsval = JUndefined | JNull | JNum int | JStr string

fun to_str :: "jsval \<Rightarrow> string" where
  "to_str JUndefined = ''undefined''"
| "to_str JNull = ''null''"
| "to_str (JNum n) = show_int n"
| "to_str (JStr s) = s"

record http_request =
  req_method :: string
  req_url :: string
  req_body :: "(string \<times> jsval) list option"

section \<open>The API functions (src/utils/api.js)\<close>

definition API_BOOKINGS :: string where
  "API_BOOKINGS = ''/api/bookings''"

definition API_CHECK_IN :: string where
  "API_CHECK_IN = ''/api/bookings''"

text \<open>
  A JavaScript function binds its parameters to the arguments by position: an argument
  beyond the last parameter is bound to nothing, a parameter beyond the last argument
  is \<open>undefined\<close>.
\<close>

definition arg :: "jsval list \<Rightarrow> nat \<Rightarrow> jsval" where
  "arg args i = (if i < length args then args ! i else JUndefined)"

text \<open>
  \<open>rescheduleBooking: (bookingId, newFlightId) => apiClient.post(`${BOOKINGS}/${bookingId}/reschedule`, { new_flight_id: newFlightId })\<close>
\<close>

definition rescheduleBooking :: "jsval list \<Rightarrow> http_request" where
  "rescheduleBooking args =
     (let bookingId = arg args 0; newFlightId = arg args 1
      in \<lparr>req_method = ''POST'',
          req_url = API_BOOKINGS @ ''/'' @ to_str bookingId @ ''/reschedule'',
          req_body = Some [(''new_flight_id'', newFlightId)]\<rparr>)"

text \<open>\<open>cancelBooking: (id) => apiClient.delete(`${BOOKINGS}/${id}`)\<close>\<close>

definition cancelBooking :: "jsval list \<Rightarrow> http_request" where
  "cancelBooking args =
     (let id = arg args 0
      in \<lparr>req_method = ''DELETE'',
          req_url = API_BOOKINGS @ ''/'' @ to_str id,
          req_body = None\<rparr>)"

text \<open>\<open>checkIn: (id) => apiClient.post(`${CHECK_IN}/${id}/checkin`)\<close>\<close>

definition checkIn :: "jsval list \<Rightarrow> http_request" where
  "checkIn args =
     (let id = arg args 0
      in \<lparr>req_method = ''POST'',
          req_url = API_CHECK_IN @ ''/'' @ to_str id @ ''/checkin'',
          req_body = None\<rparr>)"

section \<open>Reschedule (manage-booking screen)\<close>

record flight_choice =
  fc_id :: int
  fc_flight_number :: string

record managed_booking =
  mb_id :: int
  mb_booking_status :: string
  mb_seat_class :: string
  mb_seat_number :: string

text \<open>
  The component state that \<open>handleRescheduleBooking\<close> reads: the loaded booking, the
  flight picked in the reschedule dialog (\<open>null\<close> until one is picked) and the seat
  class and seat number picked there (\<open>null\<close> until picked).
\<close>

record reschedule_state =
  booking :: managed_booking
  selectedNewFlight :: "flight_choice option"
  selectedSeatClass :: "string option"
  selectedSeatNumber :: "string option"

text \<open>
  \<open>handleRescheduleBooking\<close> up to the request it issues: without a selected flight it
  shows an alert and returns; otherwise it calls \<open>bookingsAPI.rescheduleBooking\<close> with
  four arguments.
\<close>

definition handleRescheduleBooking :: "reschedule_state \<Rightarrow> alert + http_request" where
  "handleRescheduleBooking st =
     (case selectedNewFlight st of
        None \<Rightarrow> Inl (Alert ''Error'' ''Please select a new flight.'')
      | Some f \<Rightarrow>
          Inr (rescheduleBooking
                 [JNum (mb_id (booking st)),
                  JNum (fc_id f),
                  JStr (or_str (selectedSeatClass st) (mb_seat_class (booking st))),
                  JStr (or_str (selectedSeatNumber st) (mb_seat_number (booking st)))]))"

section \<open>The shared axios client (src/utils/api.js)\<close>

text \<open>
  \<open>axios.create({ baseURL, timeout: 15000, headers })\<close>: the defaults of every request
  made through \<open>apiClient\<close>. The timeout is in milliseconds.
\<close>

record axios_defaults =
  baseURL :: string
  timeout :: nat
  default_headers :: "string \<rightharpoonup> string"

definition API_BASE_URL :: string where
  "API_BASE_URL = ''http://localhost:8000''"

definition apiClient :: axios_defaults where
  "apiClient =
     \<lparr>baseURL = API_BASE_URL,
      timeout = 15000,
      default_headers = [''Content-Type'' \<mapsto> ''application/json'',
                         ''Accept'' \<mapsto> ''application/json'']\<rparr>"

text \<open>
  The configuration of one request: \<open>apiClient.get\<close>, \<open>apiClient.post\<close> and
  \<open>apiClient.delete\<close> put the method, the URL and the body on top of the client's
  defaults. No API function of the module passes a configuration of its own.
\<close>

record axios_config =
  cfg_baseURL :: string
  cfg_timeout :: nat
  cfg_headers :: "string \<rightharpoonup> string"
  cfg_request :: http_request

definition request_config :: "http_request \<Rightarrow> axios_config" where
  "request_config r =
     \<lparr>cfg_baseURL = baseURL apiClient,
      cfg_timeout = timeout apiClient,
      cfg_headers = default_headers apiClient,
      cfg_request = r\<rparr>"

text \<open>
  The process-wide token \<open>global.authToken\<close>: \<open>None\<close> while it is \<open>undefined\<close> or
  \<open>null\<close>. \<open>getAuthToken\<close> returns \<open>global.authToken || null\<close>, so an empty string
  reads as \<open>null\<close>.
\<close>

type_synonym auth_token = "string option"

definition getAuthToken :: "auth_token \<Rightarrow> string option" where
  "getAuthToken g = truthy_value g"

definition setAuthToken :: "string \<Rightarrow> auth_token \<Rightarrow> auth_token" where
  "setAuthToken token g = Some token"

definition clearAuthToken :: "auth_token \<Rightarrow> auth_token" where
  "clearAuthToken g = None"

text \<open>
  The request interceptor: it reads the token and, when the token is truthy, sets the
  \<open>Authorization\<close> header to \<open>Bearer <token>\<close>; the configuration is otherwise
  returned as it came. It does not write the token.
\<close>

definition request_interceptor :: "auth_token \<Rightarrow> axios_config \<Rightarrow> axios_config" where
  "request_interceptor g config =
     (case getAuthToken g of
        Some token \<Rightarrow>
          config\<lparr>cfg_headers := (cfg_headers config)(''Authorization'' \<mapsto> ''Bearer '' @ token)\<rparr>
      | None \<Rightarrow> config)"

text \<open>
  What axios hands to the response interceptor. On success, the envelope with the
  status and the body (\<open>response.data\<close>). On failure, an error with \<open>error.response\<close>
  when the server answered with an error status, \<open>error.request\<close> when the request was
  made, and \<open>error.message\<close>. The body of an error answer is read through its
  \<open>detail\<close> and \<open>message\<close> properties, taken here as strings when present.
\<close>

record 'b http_response =
  resp_status :: nat
  resp_data :: 'b

record error_body =
  detail :: "string option"
  body_message :: "string option"

record error_response =
  status :: nat
  data :: "error_body option"

record axios_error =
  err_response :: "error_response option"
  err_request :: bool
  err_message :: "string option"

text \<open>
  \<open>error.response.data?.detail || error.response.data?.message || `HTTP error! status: ${status}`\<close>
\<close>

definition raw_message :: "error_response \<Rightarrow> string" where
  "raw_message r =
     or_str (case data r of None \<Rightarrow> None | Some b \<Rightarrow> detail b)
       (or_str (case data r of None \<Rightarrow> None | Some b \<Rightarrow> body_message b)
          (''HTTP error! status: '' @ show_nat (status r)))"

text \<open>The message of the error thrown for an answer with an error status.\<close>

definition server_message :: "error_response \<Rightarrow> string" where
  "server_message r =
     (let message = raw_message r in
      if status r = 400 then
        if str_includes message ''already cancelled'' \<or> str_includes message ''cancelled''
          then ''Booking already cancelled''
        else if str_includes message ''not found'' then ''Booking not found''
        else if str_includes message ''cannot be cancelled''
          then ''Booking cannot be cancelled at this time''
        else if str_includes message ''Invalid credentials'' then ''Invalid credentials''
        else if str_includes message ''Please provide''
          then ''Please provide email, Falcon Flyer number, or username''
        else message
      else if status r = 404 then ''Booking not found''
      else if status r = 403 then ''Not authorized to perform this action''
      else message)"

definition cannot_connect :: string where
  "cannot_connect =
     ''Cannot connect to server. Please check your internet connection and ensure the backend is running.''"

text \<open>
  The response interceptor. A fulfilled call resolves to the body alone
  (\<open>return response.data\<close>); a rejected call throws \<open>new Error(message)\<close>, here
  \<open>Inl message\<close>, on each of its three branches.
\<close>

definition response_interceptor :: "axios_error + 'b http_response \<Rightarrow> string + 'b" where
  "response_interceptor outcome =
     (case outcome of
        Inr response \<Rightarrow> Inr (resp_data response)
      | Inl error \<Rightarrow>
          (case err_response error of
             Some r \<Rightarrow> Inl (server_message r)
           | None \<Rightarrow>
               if err_request error then Inl cannot_connect
               else Inl (or_str (err_message error) ''An unexpected error occurred'')))"

section \<open>Check-in (My Trips screen): \<open>handleCheckIn\<close>\<close>

text \<open>
  The body of the check-in answer, as the handler reads it. The documented body has
  the properties \<open>loyalty_rewards\<close> and \<open>tier_upgrade\<close>; the handler reads
  \<open>response.data\<close> of the value the call resolved to, which is the property \<open>data\<close> of
  that body, absent unless the server nests its answer under one. Numbers are integers.
\<close>

record rewards =
  miles_earned :: int
  points_earned :: int
  flight_distance :: int
  seat_class :: string
  loyalty_tier :: string
  total_miles :: int
  total_points :: int

record upgrade =
  upgraded :: bool
  old_tier :: string
  new_tier :: string
  next_tier_threshold :: "int option"

record checkin_payload =
  loyalty_rewards :: "rewards option"
  tier_upgrade :: "upgrade option"

record checkin_body = checkin_payload +
  nested_data :: "checkin_payload option"

text \<open>
  \<open>s.charAt(0).toUpperCase() + s.slice(1)\<close>, with the upper case of the letters a to z
  (the seat classes are \<open>economy\<close> and \<open>business\<close>).
\<close>

definition to_upper :: "char \<Rightarrow> char" where
  "to_upper c =
     (let n = (of_char c :: nat) in if 97 \<le> n \<and> n \<le> 122 then char_of (n - 32) else c)"

definition capitalize :: "string \<Rightarrow> string" where
  "capitalize s = (case s of [] \<Rightarrow> [] | c # cs \<Rightarrow> to_upper c # cs)"

definition rewards_message :: "rewards \<Rightarrow> string" where
  "rewards_message r =
     ''You've earned '' @ show_int (miles_earned r) @ '' miles and ''
       @ show_int (points_earned r) @ '' points!\<newline>\<newline>''
     @ ''Flight: '' @ show_int (flight_distance r) @ '' miles\<newline>''
     @ ''Seat Class: '' @ capitalize (seat_class r) @ ''\<newline>''
     @ ''Loyalty Tier: '' @ loyalty_tier r @ ''\<newline>\<newline>''
     @ ''Total Miles: '' @ show_int (total_miles r) @ ''\<newline>''
     @ ''Total Points: '' @ show_int (total_points r)"

definition upgrade_message :: "rewards \<Rightarrow> upgrade \<Rightarrow> string" where
  "upgrade_message r u =
     ''CONGRATULATIONS! You've been upgraded to '' @ new_tier u @ '' tier!\<newline>\<newline>''
     @ ''Previous Tier: '' @ old_tier u @ ''\<newline>''
     @ ''New Tier: '' @ new_tier u @ ''\<newline>\<newline>''
     @ ''You earned '' @ show_int (miles_earned r) @ '' miles and ''
       @ show_int (points_earned r) @ '' points!\<newline>''
     @ ''Total Miles: '' @ show_int (total_miles r) @ ''\<newline>\<newline>''
     @ ''Enjoy your new '' @ new_tier u @ '' benefits!''"

text \<open>
  The two titles of the rewards alert; the source decorates each with a symbol outside
  the modelled character range, left out here.
\<close>

definition title_checkin_successful :: string where
  "title_checkin_successful = ''Check-in Successful!''"

definition title_tier_upgrade :: string where
  "title_tier_upgrade = ''TIER UPGRADE!''"

text \<open>
  The alert built inside \<open>if (response.data && response.data.loyalty_rewards)\<close>.
\<close>

definition rewards_alert :: "rewards \<Rightarrow> upgrade option \<Rightarrow> alert" where
  "rewards_alert r tierUpgrade =
     (case tierUpgrade of
        None \<Rightarrow> Alert title_checkin_successful (rewards_message r)
      | Some u \<Rightarrow>
          if upgraded u then Alert title_tier_upgrade (upgrade_message r u)
          else
            (case next_tier_threshold u of
               Some threshold \<Rightarrow>
                 if threshold \<noteq> 0 then
                   Alert title_checkin_successful
                     (rewards_message r @ ''\<newline>\<newline>Points to next tier: ''
                        @ show_int (threshold - total_points r))
                 else Alert title_checkin_successful (rewards_message r)
             | None \<Rightarrow> Alert title_checkin_successful (rewards_message r)))"

text \<open>
  \<open>handleCheckIn\<close>, from the outcome of \<open>await bookingsAPI.checkIn(bookingId)\<close>: the
  value the response interceptor resolved to, or the message of the error it threw.
\<close>

definition handleCheckIn :: "string + checkin_body \<Rightarrow> alert" where
  "handleCheckIn outcome =
     (case outcome of
        Inr response \<Rightarrow>
          (case nested_data response of
             Some d \<Rightarrow>
               (case loyalty_rewards d of
                  Some r \<Rightarrow> rewards_alert r (tier_upgrade d)
                | None \<Rightarrow> Alert ''Success'' ''Check-in completed successfully!'')
           | None \<Rightarrow> Alert ''Success'' ''Check-in completed successfully!'')
      | Inl error_message \<Rightarrow>
          Alert ''Error''
            (if error_message \<noteq> [] then error_message
             else ''Check-in failed. Please try again.''))"

section \<open>Cancellation (manage-booking screen): \<open>handleCancelBooking\<close>\<close>

text \<open>
  What the handler did: the requests it sent through \<open>bookingsAPI\<close> and the alert it
  showed. The booking is the loaded one; the second argument is what axios made of the
  DELETE request, should the handler send it.
\<close>

record handler_result =
  sent :: "http_request list"
  shown :: alert

definition handleCancelBooking ::
    "managed_booking \<Rightarrow> axios_error + 'b http_response \<Rightarrow> handler_result" where
  "handleCancelBooking b reply =
     (if mb_booking_status b = ''cancelled'' then
        \<lparr>sent = [],
         shown = Alert ''Already Cancelled'' ''This booking has already been cancelled.''\<rparr>
      else
        (case response_interceptor reply of
           Inr body \<Rightarrow>
             \<lparr>sent = [cancelBooking [JNum (mb_id b)]],
              shown = Alert ''Booking Cancelled''
                ''Your booking has been cancelled successfully. Refund will be processed within 5-7 business days.''\<rparr>
         | Inl error_message \<Rightarrow>
             \<lparr>sent = [cancelBooking [JNum (mb_id b)]],
              shown =
                (if error_message \<noteq> [] \<and> str_includes error_message ''already cancelled''
                 then Alert ''Already Cancelled'' ''This booking has already been cancelled.''
                 else if error_message \<noteq> [] \<and> str_includes error_message ''not found''
                 then Alert ''Error'' ''Booking not found. It may have already been cancelled.''
                 else if error_message \<noteq> [] \<and> str_includes error_message ''cannot be cancelled''
                 then Alert ''Error'' ''This booking cannot be cancelled at this time.''
                 else Alert ''Error'' ''Failed to cancel booking. Please try again.'')\<rparr>))"

section \<open>The built-in \<open>Date\<close>\<close>

text \<open>
  The time value of a \<open>Date\<close> is an integer number of milliseconds since the epoch, or
  \<open>NaN\<close> (here \<open>None\<close>) for an invalid date. The definitions follow ECMA-262, section
  21.4.1: days and years of the proleptic Gregorian calendar, \<open>MakeDay\<close>, \<open>MakeTime\<close>,
  \<open>MakeDate\<close>, \<open>TimeClip\<close>, and the Date Time String Format that \<open>new Date(string)\<close>
  must accept. The local time zone is a parameter \<open>tz\<close>, its offset from UTC in
  milliseconds, taken as constant (no daylight saving change).
\<close>

definition msPerDay :: int where
  "msPerDay = 86400000"

definition Day :: "int \<Rightarrow> int" where
  "Day t = t div msPerDay"

definition DayFromYear :: "int \<Rightarrow> int" where
  "DayFromYear y =
     365 * (y - 1970) + (y - 1969) div 4 - (y - 1901) div 100 + (y - 1601) div 400"

definition InLeapYear :: "int \<Rightarrow> bool" where
  "InLeapYear y = (y mod 4 = 0 \<and> (y mod 100 \<noteq> 0 \<or> y mod 400 = 0))"

text \<open>The days of the year before the first of month \<open>m\<close> (1 to 12).\<close>

definition days_before_month :: "bool \<Rightarrow> nat \<Rightarrow> int" where
  "days_before_month leap m =
     [0, 31, 59, 90, 120, 151, 181, 212, 243, 273, 304, 334] ! (m - 1)
       + (if leap \<and> 2 < m then 1 else 0)"

definition DaysInMonth :: "int \<Rightarrow> nat \<Rightarrow> nat" where
  "DaysInMonth y m =
     (if m = 2 then (if InLeapYear y then 29 else 28)
      else if m = 4 \<or> m = 6 \<or> m = 9 \<or> m = 11 then 30 else 31)"

text \<open>\<open>MakeDay\<close> for a month from 1 to 12: the day number of the given calendar day.\<close>

definition MakeDay :: "int \<Rightarrow> nat \<Rightarrow> nat \<Rightarrow> int" where
  "MakeDay y m d = DayFromYear y + days_before_month (InLeapYear y) m + int d - 1"

definition MakeTime :: "nat \<Rightarrow> nat \<Rightarrow> nat \<Rightarrow> nat \<Rightarrow> int" where
  "MakeTime h mi s ms = int h * 3600000 + int mi * 60000 + int s * 1000 + int ms"

definition MakeDate :: "int \<Rightarrow> int \<Rightarrow> int" where
  "MakeDate day time = day * msPerDay + time"

definition TimeClip :: "int \<Rightarrow> int option" where
  "TimeClip t = (if \<bar>t\<bar> \<le> 8640000000000000 then Some t else None)"

text \<open>
  The calendar date of a day number, as (year, month from 1 to 12, day of month): the
  year, month and date that \<open>YearFromTime\<close>, \<open>MonthFromTime\<close> and \<open>DateFromTime\<close>
  assign to it. The days are counted from the first of March of year 0, in cycles of
  400 years (146097 days), centuries (36524 days, the fourth one day longer), four
  years (1461 days) and years (365 days, the fourth one day longer); a year that starts
  in March has its months at the days \<open>(153 * mp + 2) div 5\<close>.
\<close>

definition civil_from_days :: "int \<Rightarrow> int \<times> nat \<times> nat" where
  "civil_from_days z =
     (let n = z + 719468;
          era = n div 146097;
          doe = n mod 146097;
          c = min 3 (doe div 36524);
          doc = doe - 36524 * c;
          q = doc div 1461;
          doq = doc mod 1461;
          r = min 3 (doq div 365);
          doy = doq - 365 * r;
          mp = (5 * doy + 2) div 153;
          d = doy - (153 * mp + 2) div 5 + 1;
          m = (if mp < 10 then mp + 3 else mp - 9);
          y = 400 * era + 100 * c + 4 * q + r + (if m \<le> 2 then 1 else 0)
      in (y, nat m, nat d))"

text \<open>\<open>getDate()\<close> and \<open>getMonth()\<close> (from 0 to 11) read the local time.\<close>

definition getDate :: "int \<Rightarrow> int \<Rightarrow> nat" where
  "getDate tz t = snd (snd (civil_from_days (Day (t + tz))))"

definition getMonth :: "int \<Rightarrow> int \<Rightarrow> nat" where
  "getMonth tz t = fst (snd (civil_from_days (Day (t + tz)))) - 1"

subsection \<open>The Date Time String Format\<close>

definition is_digit :: "char \<Rightarrow> bool" where
  "is_digit c = (let n = (of_char c :: nat) in 48 \<le> n \<and> n \<le> 57)"

definition digit_val :: "char \<Rightarrow> nat" where
  "digit_val c = of_char c - 48"

definition number :: "string \<Rightarrow> nat" where
  "number ds = foldl (\<lambda>a c. 10 * a + digit_val c) 0 ds"

text \<open>Exactly \<open>n\<close> digits at the front of the string: their number and the rest.\<close>

definition digits :: "nat \<Rightarrow> string \<Rightarrow> (nat \<times> string) option" where
  "digits n s =
     (if n \<le> length s \<and> list_all is_digit (take n s) then Some (number (take n s), drop n s)
      else None)"

definition expect :: "char \<Rightarrow> string \<Rightarrow> string option" where
  "expect c s = (case s of [] \<Rightarrow> None | x # r \<Rightarrow> if x = c then Some r else None)"

text \<open>\<open>YYYY\<close>, or an expanded year \<open>+YYYYYY\<close> or \<open>-YYYYYY\<close> (\<open>-000000\<close> is not a year).\<close>

definition parse_year :: "string \<Rightarrow> (int \<times> string) option" where
  "parse_year s =
     (case s of
        [] \<Rightarrow> None
      | c # r \<Rightarrow>
          if c = CHR ''+'' then
            (case digits 6 r of None \<Rightarrow> None | Some (n, t) \<Rightarrow> Some (int n, t))
          else if c = CHR ''-'' then
            (case digits 6 r of
               None \<Rightarrow> None
             | Some (n, t) \<Rightarrow> if n = 0 then None else Some (- int n, t))
          else
            (case digits 4 s of None \<Rightarrow> None | Some (n, t) \<Rightarrow> Some (int n, t)))"

text \<open>\<open>YYYY\<close>, \<open>YYYY-MM\<close> or \<open>YYYY-MM-DD\<close>; an absent month or day is 1.\<close>

definition parse_date :: "string \<Rightarrow> ((int \<times> nat \<times> nat) \<times> string) option" where
  "parse_date s = do {
     (y, r1) \<leftarrow> parse_year s;
     case expect CHR ''-'' r1 of
       None \<Rightarrow> Some ((y, 1, 1), r1)
     | Some r2 \<Rightarrow> do {
         (m, r3) \<leftarrow> digits 2 r2;
         case expect CHR ''-'' r3 of
           None \<Rightarrow> Some ((y, m, 1), r3)
         | Some r4 \<Rightarrow> do {
             (d, r5) \<leftarrow> digits 2 r4;
             Some ((y, m, d), r5)
           }
       }
   }"

text \<open>
  The fraction of the seconds. The format writes it with three digits, the
  milliseconds. Engines read a fraction of any length: the first three digits are the
  milliseconds, a shorter fraction is filled up with zeros and the digits after the
  third are dropped.
\<close>

definition fraction :: "string \<Rightarrow> (nat \<times> string) option" where
  "fraction s =
     (let ds = takeWhile is_digit s
      in if ds = [] then None
         else Some (number (take 3 (ds @ ''00'')), dropWhile is_digit s))"

text \<open>\<open>HH:mm\<close>, \<open>HH:mm:ss\<close> or \<open>HH:mm:ss.sss\<close>; absent seconds and milliseconds are 0.\<close>

definition parse_time :: "string \<Rightarrow> ((nat \<times> nat \<times> nat \<times> nat) \<times> string) option" where
  "parse_time s = do {
     (h, r1) \<leftarrow> digits 2 s;
     r2 \<leftarrow> expect CHR '':'' r1;
     (mi, r3) \<leftarrow> digits 2 r2;
     case expect CHR '':'' r3 of
       None \<Rightarrow> Some ((h, mi, 0, 0), r3)
     | Some r4 \<Rightarrow> do {
         (sec, r5) \<leftarrow> digits 2 r4;
         case expect CHR ''.'' r5 of
           None \<Rightarrow> Some ((h, mi, sec, 0), r5)
         | Some r6 \<Rightarrow> do {
             (ms, r7) \<leftarrow> fraction r6;
             Some ((h, mi, sec, ms), r7)
           }
       }
   }"

text \<open>
  The UTC offset that ends a date-time: absent (local time), \<open>Z\<close>, or \<open>+HH:mm\<close> or
  \<open>-HH:mm\<close>, in minutes.
\<close>

datatype zone = Local | Offset int

definition parse_zone :: "string \<Rightarrow> zone option" where
  "parse_zone s =
     (case s of
        [] \<Rightarrow> Some Local
      | c # r \<Rightarrow>
          if c = CHR ''Z'' then (if r = [] then Some (Offset 0) else None)
          else if c = CHR ''+'' \<or> c = CHR ''-'' then do {
            (h, r1) \<leftarrow> digits 2 r;
            r2 \<leftarrow> expect CHR '':'' r1;
            (m, r3) \<leftarrow> digits 2 r2;
            if r3 = [] \<and> h \<le> 23 \<and> m \<le> 59
            then Some (Offset ((if c = CHR ''+'' then 1 else - 1) * int (60 * h + m)))
            else None
          }
          else None)"

text \<open>
  The time follows the date after a \<open>T\<close>; engines read a space in its place in the
  same way.
\<close>

definition time_separator :: "string \<Rightarrow> string option" where
  "time_separator s =
     (case s of [] \<Rightarrow> None | x # r \<Rightarrow> if x = CHR ''T'' \<or> x = CHR '' '' then Some r else None)"

text \<open>
  \<open>Date.parse\<close> on the Date Time String Format. A date alone is UTC; a date-time
  without an offset is local time. A month from 01 to 12 and a day from 01 to 31 are
  in bounds; a day after the last of its month counts on into the next month, as
  \<open>MakeDay\<close> does. A string whose elements are out of bounds is not a date, as the
  standard requires. For a string outside the format the standard leaves the result to
  the engine: the fraction of any length and the space before the time are read as
  said above, and any other string is taken as not a date.
\<close>

definition Date_parse :: "int \<Rightarrow> string \<Rightarrow> int option" where
  "Date_parse tz s = do {
     ((y, m, d), r) \<leftarrow> parse_date s;
     if \<not> (1 \<le> m \<and> m \<le> 12 \<and> 1 \<le> d \<and> d \<le> 31) then None
     else if r = [] then TimeClip (MakeDate (MakeDay y m d) 0)
     else do {
       r1 \<leftarrow> time_separator r;
       ((h, mi, sec, ms), r2) \<leftarrow> parse_time r1;
       z \<leftarrow> parse_zone r2;
       if h \<le> 24 \<and> mi \<le> 59 \<and> sec \<le> 59 \<and> (h < 24 \<or> mi = 0 \<and> sec = 0 \<and> ms = 0)
       then
         (let t = MakeDate (MakeDay y m d) (MakeTime h mi sec ms)
          in TimeClip (case z of Local \<Rightarrow> t - tz | Offset minutes \<Rightarrow> t - minutes * 60000))
       else None
     }
   }"

text \<open>
  \<open>new Date(value)\<close>: a string is parsed; \<open>undefined\<close> is not a date; \<open>null\<close> is the
  number 0 and a number is the time value itself.
\<close>

definition new_Date :: "int \<Rightarrow> jsval \<Rightarrow> int option" where
  "new_Date tz v =
     (case v of
        JStr s \<Rightarrow> Date_parse tz s
      | JUndefined \<Rightarrow> None
      | JNull \<Rightarrow> TimeClip 0
      | JNum n \<Rightarrow> TimeClip n)"

section \<open>Regular expressions\<close>

text \<open>
  The regular expressions of the screens use character classes, concatenation and
  repetition only, so a test anchored by \<open>^\<close> and \<open>$\<close> asks whether the whole string
  is in the language of the expression. \<open>matches\<close> decides this by taking the
  derivative of the expression by each character in turn.
\<close>

datatype rexp =
    Zero
  | One
  | Sat "char \<Rightarrow> bool"
  | Alt rexp rexp
  | Seq rexp rexp
  | Star rexp

fun nullable :: "rexp \<Rightarrow> bool" where
  "nullable Zero = False"
| "nullable One = True"
| "nullable (Sat p) = False"
| "nullable (Alt r s) = (nullable r \<or> nullable s)"
| "nullable (Seq r s) = (nullable r \<and> nullable s)"
| "nullable (Star r) = True"

fun deriv :: "char \<Rightarrow> rexp \<Rightarrow> rexp" where
  "deriv c Zero = Zero"
| "deriv c One = Zero"
| "deriv c (Sat p) = (if p c then One else Zero)"
| "deriv c (Alt r s) = Alt (deriv c r) (deriv c s)"
| "deriv c (Seq r s) =
     (if nullable r then Alt (Seq (deriv c r) s) (deriv c s) else Seq (deriv c r) s)"
| "deriv c (Star r) = Seq (deriv c r) (Star r)"

fun matches :: "rexp \<Rightarrow> string \<Rightarrow> bool" where
  "matches r [] = nullable r"
| "matches r (c # cs) = matches (deriv c r) cs"

definition Chr :: "char \<Rightarrow> rexp" where
  "Chr c = Sat (\<lambda>x. x = c)"

definition Plus :: "rexp \<Rightarrow> rexp" where
  "Plus r = Seq r (Star r)"

text \<open>\<open>\d\<close> is a digit from 0 to 9; \<open>[^\s@]\<close> is any character but white space and \<open>@\<close>.\<close>

definition re_digit :: rexp where
  "re_digit = Sat is_digit"

definition re_not_space_at :: rexp where
  "re_not_space_at = Sat (\<lambda>c. \<not> is_js_space c \<and> c \<noteq> CHR ''@'')"

text \<open>\<open>/^[^\s@]+@[^\s@]+\.[^\s@]+$/\<close>\<close>

definition emailRegex :: rexp where
  "emailRegex =
     Seq (Plus re_not_space_at)
       (Seq (Chr CHR ''@'')
          (Seq (Plus re_not_space_at)
             (Seq (Chr CHR ''.'') (Plus re_not_space_at))))"

text \<open>\<open>/^\d{4}-\d{2}-\d{2}$/\<close>\<close>

definition dateOnlyRegex :: rexp where
  "dateOnlyRegex =
     Seq re_digit (Seq re_digit (Seq re_digit (Seq re_digit
       (Seq (Chr CHR ''-'')
          (Seq re_digit (Seq re_digit
             (Seq (Chr CHR ''-'')
                (Seq re_digit re_digit))))))))"

text \<open>\<open>/\.(\d{3})\d+$/\<close>, without its end anchor\<close>

definition fractionRegex :: rexp where
  "fractionRegex =
     Seq (Chr CHR ''.'')
       (Seq re_digit (Seq re_digit (Seq re_digit (Plus re_digit))))"

text \<open>
  \<open>s.replace(/\.(\d{3})\d+$/, '.$1')\<close>: the leftmost match is replaced. Because of the
  end anchor a match that starts at a position is the whole rest of the string, and the
  replacement, the dot and the first group, is its first four characters.
\<close>

fun trim_fraction :: "string \<Rightarrow> string" where
  "trim_fraction [] = []"
| "trim_fraction (c # cs) =
     (if matches fractionRegex (c # cs) then take 4 (c # cs) else c # trim_fraction cs)"

section \<open>My Trips screen (src/app/my-trips.jsx)\<close>

definition months :: "string list" where
  "months = [''JAN'', ''FEB'', ''MAR'', ''APR'', ''MAY'', ''JUN'',
             ''JUL'', ''AUG'', ''SEP'', ''OCT'', ''NOV'', ''DEC'']"

text \<open>
  \<open>formatDate(dateString)\<close>. The argument is a value of the bookings answer (never a
  \<open>Date\<close> object): \<open>!dateString\<close> holds for \<open>undefined\<close>, \<open>null\<close>, the empty string
  and 0; \<open>String(dateString)\<close> is \<open>to_str\<close>.
\<close>

definition falsy :: "jsval \<Rightarrow> bool" where
  "falsy v = (v = JUndefined \<or> v = JNull \<or> v = JStr [] \<or> v = JNum 0)"

definition formatDate :: "int \<Rightarrow> jsval \<Rightarrow> string" where
  "formatDate tz dateString =
     (if falsy dateString then ''N/A''
      else
        (let input0 = trim_fraction (to_str dateString);
             input = (if matches dateOnlyRegex input0 then input0 @ ''T12:00:00'' else input0)
         in case new_Date tz (JStr input) of
              None \<Rightarrow> ''N/A''
            | Some t \<Rightarrow> show_nat (getDate tz t) @ '' '' @ months ! getMonth tz t))"

text \<open>
  The statements that \<open>canCheckIn\<close> and \<open>getCheckInMessage\<close> share: the departure
  time, with the fraction of a string trimmed, as a \<open>Date\<close>; the difference to \<open>now\<close>
  in hours. The difference is a JavaScript number: \<open>None\<close> is \<open>NaN\<close>, for which every
  comparison is false. The division is exact here; in floating point its comparisons
  with 0 and 24 have the same outcome, since both bounds are quotients of integers by
  3600000 and rounding is monotone.
\<close>

definition hoursUntilDeparture :: "int \<Rightarrow> int \<Rightarrow> jsval \<Rightarrow> rat option" where
  "hoursUntilDeparture tz now departureTime =
     (let normalized = (case departureTime of JStr s \<Rightarrow> JStr (trim_fraction s) | v \<Rightarrow> v);
          departure = new_Date tz normalized
      in case departure of
           None \<Rightarrow> None
         | Some t \<Rightarrow> Some (of_int (t - now) / (1000 * 60 * 60)))"

definition canCheckIn :: "int \<Rightarrow> int \<Rightarrow> jsval \<Rightarrow> string \<Rightarrow> bool" where
  "canCheckIn tz now departureTime bookingStatus =
     (if bookingStatus \<noteq> ''confirmed'' then False
      else
        (case hoursUntilDeparture tz now departureTime of
           None \<Rightarrow> False
         | Some h \<Rightarrow> h \<le> 24 \<and> h > 0))"

definition getCheckInMessage :: "int \<Rightarrow> int \<Rightarrow> jsval \<Rightarrow> string \<Rightarrow> string" where
  "getCheckInMessage tz now departureTime bookingStatus =
     (if bookingStatus = ''checked_in'' then ''You have already checked in for this flight.''
      else if bookingStatus = ''cancelled'' then ''This booking has been cancelled.''
      else
        (case hoursUntilDeparture tz now departureTime of
           None \<Rightarrow> ''You can check-in now!''
         | Some h \<Rightarrow>
             if h \<le> 0 then ''This flight has already departed.''
             else if h > 24 then
               (let hoursUntilCheckIn = h - 24;
                    daysUntilCheckIn = \<lfloor>hoursUntilCheckIn / 24\<rfloor>
                in if daysUntilCheckIn > 0 then
                     ''Check-in opens in '' @ show_int daysUntilCheckIn @ '' day''
                       @ (if daysUntilCheckIn > 1 then ''s'' else '''')
                       @ '' (24 hours before departure).''
                   else ''Check-in opens in '' @ show_int \<lceil>hoursUntilCheckIn\<rceil> @ '' hours.'')
             else ''You can check-in now!''))"

subsection \<open>Loading the bookings\<close>

text \<open>
  A booking of the answer of GET /api/bookings, with the properties that the screen
  reads; \<open>flight\<close> may be absent (\<open>booking.flight?.departure_time\<close>).
\<close>

record api_flight =
  f_departure_time :: jsval
  f_arrival_airport :: "string option"

record api_booking =
  b_id :: int
  b_booking_reference :: string
  b_booking_status :: string
  b_seat_class :: string
  b_seat_number :: string
  b_passenger_name :: string
  b_total_price :: jsval
  b_flight :: "api_flight option"

text \<open>A card of the screen: the element that the transformation makes of a booking.\<close>

record trip =
  t_id :: string
  t_destination :: string
  t_date :: string
  t_bookingReference :: string
  t_canCheckIn :: bool
  t_checkInMessage :: string
  t_bookingStatus :: string
  t_seatClass :: string
  t_seatNumber :: string
  t_passengerName :: string
  t_totalPrice :: jsval
  t_flight :: "api_flight option"

definition airportMap :: "(string \<times> string) list" where
  "airportMap =
     [(''BAH'', ''Bahrain''), (''DXB'', ''Dubai''), (''DOH'', ''Doha''), (''KWI'', ''Kuwait''),
      (''RUH'', ''Riyadh''), (''JED'', ''Jeddah''), (''CAI'', ''Cairo''), (''BEY'', ''Beirut''),
      (''AMM'', ''Amman''),
      (''LHR'', ''London''), (''CDG'', ''Paris''), (''FRA'', ''Frankfurt''), (''MAD'', ''Madrid''),
      (''FCO'', ''Rome''), (''ATH'', ''Athens''),
      (''BOM'', ''Mumbai''), (''DEL'', ''Delhi''), (''BKK'', ''Bangkok''),
      (''KUL'', ''Kuala Lumpur''), (''SIN'', ''Singapore''), (''HKG'', ''Hong Kong''),
      (''NBO'', ''Nairobi''), (''JNB'', ''Johannesburg''), (''ADD'', ''Addis Ababa'')]"

definition getDestinationName :: "string \<Rightarrow> string" where
  "getDestinationName airportCode =
     (case map_of airportMap airportCode of Some name \<Rightarrow> name | None \<Rightarrow> airportCode)"

text \<open>\<open>booking.flight?.departure_time\<close>\<close>

definition departure_of :: "api_booking \<Rightarrow> jsval" where
  "departure_of b = (case b_flight b of None \<Rightarrow> JUndefined | Some f \<Rightarrow> f_departure_time f)"

text \<open>The function mapped over the active bookings.\<close>

definition transform :: "int \<Rightarrow> int \<Rightarrow> api_booking \<Rightarrow> trip" where
  "transform tz now b =
     \<lparr>t_id = show_int (b_id b),
      t_destination =
        getDestinationName
          (or_str (case b_flight b of None \<Rightarrow> None | Some f \<Rightarrow> f_arrival_airport f) ''Unknown''),
      t_date = formatDate tz (departure_of b),
      t_bookingReference = b_booking_reference b,
      t_canCheckIn = canCheckIn tz now (departure_of b) (b_booking_status b),
      t_checkInMessage = getCheckInMessage tz now (departure_of b) (b_booking_status b),
      t_bookingStatus = b_booking_status b,
      t_seatClass = b_seat_class b,
      t_seatNumber = b_seat_number b,
      t_passengerName = b_passenger_name b,
      t_totalPrice = b_total_price b,
      t_flight = b_flight b\<rparr>"

text \<open>
  The state of the screen that \<open>loadUserBookings\<close> sets. The cards of \<open>bookings\<close> are
  rendered one by one, in order, when \<open>isLoggedIn\<close> holds and \<open>isLoading\<close> does not.
\<close>

record trips_state =
  bookings :: "trip list"
  isLoggedIn :: bool
  isLoading :: bool

text \<open>
  \<open>loadUserBookings\<close>. Its inputs are the outcome of the race of \<open>testAPIConnection()\<close>
  with the ten-second timer (the connection flag, or the message of the rejection), the
  token, and the outcome of the race of \<open>bookingsAPI.getBookings()\<close> with the same
  timer (the array of the answer, or the message of the error thrown).
\<close>

definition is_auth_error :: "string \<Rightarrow> bool" where
  "is_auth_error m =
     (str_includes m ''401'' \<or> str_includes m ''403'' \<or> str_includes m ''unauthorized''
      \<or> str_includes m ''Not authenticated'' \<or> str_includes m ''Authentication failed'')"

definition on_load_error :: "string \<Rightarrow> trips_state \<Rightarrow> trips_state" where
  "on_load_error m st =
     (if is_auth_error m then st\<lparr>isLoggedIn := False, bookings := []\<rparr>
      else st\<lparr>isLoggedIn := True, bookings := []\<rparr>)"

definition loadUserBookings ::
    "int \<Rightarrow> int \<Rightarrow> string + bool \<Rightarrow> auth_token \<Rightarrow> string + api_booking list
       \<Rightarrow> trips_state \<Rightarrow> trips_state" where
  "loadUserBookings tz now connection g reply st =
     (case connection of
        Inl m \<Rightarrow> on_load_error m st
      | Inr isConnected \<Rightarrow>
          if \<not> isConnected then st\<lparr>bookings := [], isLoggedIn := False, isLoading := False\<rparr>
          else
            (case getAuthToken g of
               None \<Rightarrow> st\<lparr>isLoggedIn := False, bookings := []\<rparr>
             | Some token \<Rightarrow>
                 (case reply of
                    Inl m \<Rightarrow> on_load_error m st
                  | Inr userBookings \<Rightarrow>
                      (let activeBookings =
                             filter (\<lambda>b. b_booking_status b \<noteq> ''cancelled'') userBookings;
                           transformedBookings = map (transform tz now) activeBookings
                       in st\<lparr>bookings := transformedBookings, isLoggedIn := True,
                             isLoading := False\<rparr>))))"

section \<open>Booking screen (src/app/book.jsx): confirming a booking\<close>

text \<open>
  The form of the booking dialog. \<open>selectedSeat\<close> is \<open>null\<close> until a seat is picked.
  The button is disabled while a field is blank or no seat is picked; the handler
  checks the same conditions again when it runs.
\<close>

record booking_form =
  passengerName :: string
  passengerEmail :: string
  passportNumber :: string
  selectedSeat :: "string option"

record bookingData =
  bd_passengerName :: string
  bd_passengerEmail :: string
  bd_passportNumber :: string
  bd_seatNumber :: string

text \<open>
  The \<open>onPress\<close> handler of the confirm button: a validation alert, or the call
  \<open>createBooking(bookingData)\<close> with the data it built.
\<close>

definition confirmBooking_onPress :: "booking_form \<Rightarrow> alert + bookingData" where
  "confirmBooking_onPress form =
     (if js_trim (passengerName form) = [] then
        Inl (Alert ''Validation Error'' ''Please enter passenger name'')
      else if js_trim (passengerEmail form) = [] then
        Inl (Alert ''Validation Error'' ''Please enter email address'')
      else if js_trim (passportNumber form) = [] then
        Inl (Alert ''Validation Error'' ''Please enter passport number'')
      else
        (case truthy_value (selectedSeat form) of
           None \<Rightarrow> Inl (Alert ''Validation Error'' ''Please select a seat'')
         | Some seat \<Rightarrow>
             if \<not> matches emailRegex (passengerEmail form) then
               Inl (Alert ''Validation Error'' ''Please enter a valid email address'')
             else
               Inr \<lparr>bd_passengerName = js_trim (passengerName form),
                    bd_passengerEmail = js_trim (passengerEmail form),
                    bd_passportNumber = js_trim (passportNumber form),
                    bd_seatNumber = seat\<rparr>))"

text \<open>
  The flight picked on the search screen and the seat class chosen there; the booking
  dialog is open for a picked flight only.
\<close>

record selected_flight =
  sf_id :: int
  economyPrice :: jsval
  businessPrice :: jsval

text \<open>\<open>createBooking: (bookingData) => apiClient.post('/api/bookings', bookingData)\<close>\<close>

definition API_CREATE_BOOKING :: string where
  "API_CREATE_BOOKING = ''/api/bookings''"

definition createBooking_api :: "(string \<times> jsval) list \<Rightarrow> http_request" where
  "createBooking_api payload =
     \<lparr>req_method = ''POST'', req_url = API_CREATE_BOOKING, req_body = Some payload\<rparr>"

text \<open>
  \<open>createBooking(bookingData)\<close> of the screen, up to the request it issues: without a
  token it asks the user to log in and sends nothing.
\<close>

definition createBooking ::
    "auth_token \<Rightarrow> selected_flight \<Rightarrow> string \<Rightarrow> bookingData \<Rightarrow> alert + http_request" where
  "createBooking g selectedFlight seatClass bd =
     (case getAuthToken g of
        None \<Rightarrow> Inl (Alert ''Authentication Required'' ''Please log in to create a booking.'')
      | Some token \<Rightarrow>
          (let backendSeatClass = (if seatClass = ''falcon_gold'' then ''business'' else ''economy'');
               price = (if backendSeatClass = ''economy'' then economyPrice selectedFlight
                        else businessPrice selectedFlight)
           in Inr (createBooking_api
                     [(''flight_id'', JNum (sf_id selectedFlight)),
                      (''passenger_name'', JStr (bd_passengerName bd)),
                      (''passenger_email'', JStr (bd_passengerEmail bd)),
                      (''passport_number'', JStr (bd_passportNumber bd)),
                      (''seat_class'', JStr backendSeatClass),
                      (''seat_number'', JStr (bd_seatNumber bd)),
                      (''total_price'', price)])))"

text \<open>
  Pressing the confirm button: the alert shown (if any), whether \<open>createBooking\<close> was
  invoked, and the requests sent.
\<close>

record press_result =
  pr_alert :: "alert option"
  pr_createBooking_invoked :: bool
  pr_sent :: "http_request list"

definition press_confirm ::
    "auth_token \<Rightarrow> selected_flight \<Rightarrow> string \<Rightarrow> booking_form \<Rightarrow> press_result" where
  "press_confirm g selectedFlight seatClass form =
     (case confirmBooking_onPress form of
        Inl a \<Rightarrow> \<lparr>pr_alert = Some a, pr_createBooking_invoked = False, pr_sent = []\<rparr>
      | Inr bd \<Rightarrow>
          (case createBooking g selectedFlight seatClass bd of
             Inl a \<Rightarrow> \<lparr>pr_alert = Some a, pr_createBooking_invoked = True, pr_sent = []\<rparr>
           | Inr req \<Rightarrow> \<lparr>pr_alert = None, pr_createBooking_invoked = True, pr_sent = [req]\<rparr>))"

section \<open>Login and logout (src/app/login.jsx, src/app/menu.jsx)\<close>

record login_form =
  lf_isLoading :: bool
  loginMethod :: string
  falconFlyerNumber :: string
  email :: string
  password :: string

text \<open>
  \<open>handleLogin\<close>: the token after it, and the alert it showed. Its inputs besides the
  form are the result of \<open>testAPIConnection()\<close> and the outcome of
  \<open>authAPI.login(loginData)\<close>: the \<open>token\<close> property of the answer (\<open>None\<close> when the
  answer has none), or the message of the error thrown. \<open>setAuthToken\<close> is called in
  one place, under \<open>if (response.token)\<close>.
\<close>

definition handleLogin ::
    "login_form \<Rightarrow> bool \<Rightarrow> string + string option \<Rightarrow> auth_token \<Rightarrow> auth_token \<times> alert option" where
  "handleLogin form isConnected reply g =
     (if lf_isLoading form then (g, None)
      else if loginMethod form = ''falconFlyer'' \<and> js_trim (falconFlyerNumber form) = [] then
        (g, Some (Alert ''Error'' ''Please enter your Falcon Flyer number''))
      else if loginMethod form = ''email'' \<and> js_trim (email form) = [] then
        (g, Some (Alert ''Error'' ''Please enter your email address''))
      else if js_trim (password form) = [] then
        (g, Some (Alert ''Error'' ''Please enter your password''))
      else if \<not> isConnected then
        (g, Some (Alert ''Connection Error'' cannot_connect))
      else
        (case reply of
           Inl error_message \<Rightarrow>
             (g, Some (Alert ''Error''
                         (if error_message \<noteq> [] then error_message
                          else ''Login failed. Please try again.'')))
         | Inr response_token \<Rightarrow>
             (case truthy_value response_token of
                Some token \<Rightarrow> (setAuthToken token g, None)
              | None \<Rightarrow> (g, None))))"

text \<open>
  \<open>handleLogout\<close>: the logout request goes through the client first (its failure is
  ignored), then \<open>clearAuthToken()\<close> runs. The result is the token after it, the
  configuration of the logout request as the request interceptor left it, and the alert.
\<close>

definition API_LOGOUT :: string where
  "API_LOGOUT = ''/auth/logout''"

definition logout_api :: http_request where
  "logout_api = \<lparr>req_method = ''POST'', req_url = API_LOGOUT, req_body = None\<rparr>"

definition handleLogout :: "auth_token \<Rightarrow> auth_token \<times> axios_config \<times> alert" where
  "handleLogout g =
     (clearAuthToken g,
      request_interceptor g (request_config logout_api),
      Alert ''Logged out'' ''You have been signed out.'')"

text \<open>
  The operations of the application on the token: a login, a logout, and any call made
  through the client, whose request interceptor reads the token and returns a
  configuration. No other function of the sources assigns \<open>global.authToken\<close> or calls
  \<open>setAuthToken\<close> or \<open>clearAuthToken\<close>. The token is \<open>undefined\<close> when the
  application starts.
\<close>

datatype app_op =
    Login login_form bool "string + string option"
  | Logout
  | ApiCall http_request

fun token_after :: "auth_token \<Rightarrow> app_op \<Rightarrow> auth_token" where
  "token_after g (Login form isConnected reply) = fst (handleLogin form isConnected reply g)"
| "token_after g Logout = fst (handleLogout g)"
| "token_after g (ApiCall r) = g"

definition run_ops :: "app_op list \<Rightarrow> auth_token" where
  "run_ops ops = foldl token_after None ops"

text \<open>The configuration with which a call leaves the request interceptor.\<close>

definition outgoing :: "auth_token \<Rightarrow> http_request \<Rightarrow> axios_config" where
  "outgoing g r = request_interceptor g (request_config r)"

section \<open>Notions used in the claims\<close>

text \<open>
  The server answers the DELETE request with an error that says the booking is already
  cancelled: an error answer, other than 403 and 404 (whose message the response
  interceptor replaces), whose message contains \<open>already cancelled\<close>. The
  \<open>AlreadyCancelled\<close> error of the service is such an answer with status 400.
\<close>

definition already_cancelled_answer :: "axios_error + 'b http_response \<Rightarrow> bool" where
  "already_cancelled_answer reply =
     (case reply of
        Inr ok \<Rightarrow> False
      | Inl e \<Rightarrow>
          (case err_response e of
             None \<Rightarrow> False
           | Some r \<Rightarrow>
               status r \<noteq> 403 \<and> status r \<noteq> 404
               \<and> str_includes (raw_message r) ''already cancelled''))"

text \<open>
  The message \<open>m\<close> of the error thrown for an error answer is derived from the answer:
  it is the text of the body's \<open>detail\<close> or \<open>message\<close> property or the text with the
  HTTP status (\<open>raw_message\<close>), or one of the fixed texts that the interceptor puts in
  its place for the statuses 400, 404 and 403.
\<close>

definition derived_from_response :: "error_response \<Rightarrow> string \<Rightarrow> bool" where
  "derived_from_response r m =
     (if status r = 400 then
        m = raw_message r \<or> m = ''Booking already cancelled'' \<or> m = ''Booking not found''
        \<or> m = ''Booking cannot be cancelled at this time'' \<or> m = ''Invalid credentials''
        \<or> m = ''Please provide email, Falcon Flyer number, or username''
      else if status r = 404 then m = ''Booking not found''
      else if status r = 403 then m = ''Not authorized to perform this action''
      else m = raw_message r)"

text \<open>
  The conditions of the booking form: name, email and passport number are not blank,
  a seat is selected, and the email as typed matches the pattern.
\<close>

definition form_valid :: "booking_form \<Rightarrow> bool" where
  "form_valid form =
     (js_trim (passengerName form) \<noteq> [] \<and> js_trim (passengerEmail form) \<noteq> []
      \<and> js_trim (passportNumber form) \<noteq> [] \<and> truthy_str (selectedSeat form)
      \<and> matches emailRegex (passengerEmail form))"

text \<open>
  The login form is complete: no login is in progress, the identifier of the chosen
  method and the password are not blank.
\<close>

definition login_form_complete :: "login_form \<Rightarrow> bool" where
  "login_form_complete form =
     (\<not> lf_isLoading form
      \<and> \<not> (loginMethod form = ''falconFlyer'' \<and> js_trim (falconFlyerNumber form) = [])
      \<and> \<not> (loginMethod form = ''email'' \<and> js_trim (email form) = [])
      \<and> js_trim (password form) \<noteq> [])"

text \<open>
  The departure time as \<open>canCheckIn\<close> and \<open>getCheckInMessage\<close> read it: the \<open>Date\<close>
  made of the value, a string with its fraction trimmed first.
\<close>

definition departure_Date :: "int \<Rightarrow> jsval \<Rightarrow> int option" where
  "departure_Date tz d = new_Date tz (case d of JStr s \<Rightarrow> JStr (trim_fraction s) | v \<Rightarrow> v)"






section \<open>Auxiliary facts\<close>

lemma str_includes_nonempty: "str_includes s sub \<Longrightarrow> sub \<noteq> [] \<Longrightarrow> s \<noteq> []"
  by (cases s) auto

lemma str_includes_iff: "str_includes s sub \<longleftrightarrow> (\<exists>p q. s = p @ sub @ q)"
proof (induction s)
  case Nil
  then show ?case by auto
next
  case (Cons c cs)
  have "take (length sub) (c # cs) = sub \<longleftrightarrow> (\<exists>q. c # cs = sub @ q)"
    by (metis append_eq_conv_conj)
  moreover have "(\<exists>p q. c # cs = p @ sub @ q) \<longleftrightarrow>
      (\<exists>q. c # cs = sub @ q) \<or> (\<exists>p q. cs = p @ sub @ q)"
  proof
    assume "\<exists>p q. c # cs = p @ sub @ q"
    then obtain p q where pq: "c # cs = p @ sub @ q" by blast
    show "(\<exists>q. c # cs = sub @ q) \<or> (\<exists>p q. cs = p @ sub @ q)"
    proof (cases p)
      case Nil
      with pq show ?thesis by auto
    next
      case (Cons x p')
      with pq have "cs = p' @ sub @ q" by simp
      then show ?thesis by blast
    qed
  next
    assume "(\<exists>q. c # cs = sub @ q) \<or> (\<exists>p q. cs = p @ sub @ q)"
    then show "\<exists>p q. c # cs = p @ sub @ q"
    proof
      assume "\<exists>q. c # cs = sub @ q"
      then obtain q where "c # cs = [] @ sub @ q" by auto
      then show ?thesis by blast
    next
      assume "\<exists>p q. cs = p @ sub @ q"
      then obtain p q where "c # cs = (c # p) @ sub @ q" by auto
      then show ?thesis by blast
    qed
  qed
  ultimately show ?case using Cons.IH by simp
qed

lemma includes_already_cancelled:
  "str_includes ''Booking already cancelled'' ''already cancelled''"
  by simp

lemma server_message_already_cancelled:
  assumes "status r \<noteq> 403" "status r \<noteq> 404"
    and "str_includes (raw_message r) ''already cancelled''"
  shows "server_message r \<noteq> [] \<and> str_includes (server_message r) ''already cancelled''"
proof (cases "status r = 400")
  case True
  with assms(3) have "server_message r = ''Booking already cancelled''"
    by (simp add: server_message_def)
  then show ?thesis using includes_already_cancelled by simp
next
  case False
  with assms have "server_message r = raw_message r"
    by (simp add: server_message_def)
  moreover have "raw_message r \<noteq> []"
    using assms(3) str_includes_nonempty by fastforce
  ultimately show ?thesis using assms(3) by simp
qed

lemma derived_server_message: "derived_from_response r (server_message r)"
  by (simp add: derived_from_response_def server_message_def Let_def)

lemma raw_message_cases:
  "raw_message r = ''HTTP error! status: '' @ show_nat (status r)
   \<or> (\<exists>b. data r = Some b
          \<and> (detail b = Some (raw_message r) \<or> body_message b = Some (raw_message r)))"
  by (auto simp: raw_message_def or_str_def split: option.splits)

lemma truthy_value_cases:
  "truthy_value v = (case v of None \<Rightarrow> None | Some s \<Rightarrow> if s = [] then None else Some s)"
  by (simp add: truthy_value_def truthy_str_def split: option.splits)

lemma truthy_value_Some_iff: "(\<exists>s. truthy_value v = Some s) \<longleftrightarrow> truthy_str v"
  by (auto simp: truthy_value_def truthy_str_def split: option.splits)

lemma validation_alert:
  assumes "\<not> form_valid form"
  shows "\<exists>m \<in> set [''Please enter passenger name'', ''Please enter email address'',
                    ''Please enter passport number'', ''Please select a seat'',
                    ''Please enter a valid email address''].
           confirmBooking_onPress form = Inl (Alert ''Validation Error'' m)"
  using assms
  unfolding form_valid_def confirmBooking_onPress_def truthy_value_cases truthy_str_def
  by (auto split: option.splits)

lemma handleLogin_token:
  "fst (handleLogin form c reply g) =
     (if login_form_complete form \<and> c then
        (case reply of
           Inr (Some t) \<Rightarrow> if t \<noteq> [] then Some t else g
         | Inr None \<Rightarrow> g
         | Inl m \<Rightarrow> g)
      else g)"
  by (auto simp: handleLogin_def login_form_complete_def truthy_value_cases setAuthToken_def
      split: sum.splits option.splits)

text \<open>The token is never the empty string: only a truthy token is stored.\<close>

lemma token_after_not_empty: "g \<noteq> Some [] \<Longrightarrow> token_after g x \<noteq> Some []"
  by (cases x)
    (auto simp: handleLogin_token handleLogout_def clearAuthToken_def
      split: sum.splits option.splits if_splits)

lemma foldl_token_not_empty: "g \<noteq> Some [] \<Longrightarrow> foldl token_after g ops \<noteq> Some []"
  by (induction ops arbitrary: g) (simp_all add: token_after_not_empty)

lemma run_ops_not_empty: "run_ops ops \<noteq> Some []"
  by (simp add: run_ops_def foldl_token_not_empty)

lemma outgoing_authorization:
  "cfg_headers (outgoing g r) ''Authorization'' =
     (case g of None \<Rightarrow> None | Some t \<Rightarrow> if t = [] then None else Some (''Bearer '' @ t))"
  by (simp add: outgoing_def request_interceptor_def request_config_def apiClient_def
      getAuthToken_def truthy_value_cases split: option.splits)

lemma hours_le_24: "(of_int d :: rat) / (1000 * 60 * 60) \<le> 24 \<longleftrightarrow> d \<le> 86400000"
proof -
  have "(of_int d :: rat) / (1000 * 60 * 60) \<le> 24 \<longleftrightarrow> (of_int d :: rat) \<le> of_int 86400000"
    by (simp add: field_simps)
  then show ?thesis by (simp only: of_int_le_iff)
qed

lemma hours_gt_0: "(of_int d :: rat) / (1000 * 60 * 60) > 0 \<longleftrightarrow> d > 0"
  by (simp add: field_simps)

lemma hoursUntilDeparture_alt:
  "hoursUntilDeparture tz now d =
     (case departure_Date tz d of None \<Rightarrow> None
      | Some t \<Rightarrow> Some (of_int (t - now) / (1000 * 60 * 60)))"
  by (simp add: hoursUntilDeparture_def departure_Date_def Let_def)

subsection \<open>Regular expressions: what \<open>matches\<close> decides\<close>

lemma matches_Zero [simp]: "matches Zero w = False"
  by (induction w) simp_all

lemma matches_One [simp]: "matches One w \<longleftrightarrow> w = []"
  by (cases w) simp_all


lemma matches_Alt [simp]: "matches (Alt r s) w \<longleftrightarrow> matches r w \<or> matches s w"
  by (induction w arbitrary: r s) simp_all

lemma matches_Seq: "matches (Seq r s) w \<longleftrightarrow> (\<exists>u v. w = u @ v \<and> matches r u \<and> matches s v)"
proof (induction w arbitrary: r)
  case Nil
  show ?case by simp
next
  case (Cons c cs)
  have split: "(\<exists>u v. c # cs = u @ v \<and> matches r u \<and> matches s v) \<longleftrightarrow>
      (nullable r \<and> matches s (c # cs))
      \<or> (\<exists>u v. cs = u @ v \<and> matches (deriv c r) u \<and> matches s v)"
  proof
    assume "\<exists>u v. c # cs = u @ v \<and> matches r u \<and> matches s v"
    then obtain u v where uv: "c # cs = u @ v" "matches r u" "matches s v" by blast
    show "(nullable r \<and> matches s (c # cs))
      \<or> (\<exists>u v. cs = u @ v \<and> matches (deriv c r) u \<and> matches s v)"
    proof (cases u)
      case Nil
      with uv show ?thesis by simp
    next
      case (Cons x u')
      with uv have "cs = u' @ v" "matches (deriv c r) u'" by simp_all
      with uv(3) show ?thesis by blast
    qed
  next
    assume "(nullable r \<and> matches s (c # cs))
      \<or> (\<exists>u v. cs = u @ v \<and> matches (deriv c r) u \<and> matches s v)"
    then show "\<exists>u v. c # cs = u @ v \<and> matches r u \<and> matches s v"
    proof
      assume "nullable r \<and> matches s (c # cs)"
      then have "c # cs = [] @ (c # cs) \<and> matches r [] \<and> matches s (c # cs)" by simp
      then show ?thesis by blast
    next
      assume "\<exists>u v. cs = u @ v \<and> matches (deriv c r) u \<and> matches s v"
      then obtain u v where "cs = u @ v" "matches (deriv c r) u" "matches s v" by blast
      then have "c # cs = (c # u) @ v \<and> matches r (c # u) \<and> matches s v" by simp
      then show ?thesis by blast
    qed
  qed
  show ?case
    unfolding split using Cons.IH by (cases "nullable r") auto
qed

lemma matches_Seq_Zero [simp]: "matches (Seq Zero r) w = False"
  by (simp add: matches_Seq)

lemma matches_Seq_One [simp]: "matches (Seq One r) w = matches r w"
  by (simp add: matches_Seq)

lemma matches_Seq_Sat_Nil [simp]: "matches (Seq (Sat p) r) [] = False"
  by simp

lemma matches_Seq_Sat_Cons [simp]: "matches (Seq (Sat p) r) (c # cs) \<longleftrightarrow> p c \<and> matches r cs"
  by simp

lemma matches_Seq_Sat:
  "matches (Seq (Sat p) r) w \<longleftrightarrow> (\<exists>c cs. w = c # cs \<and> p c \<and> matches r cs)"
  by (cases w) simp_all







subsection \<open>The calendar: \<open>civil_from_days\<close> inverts \<open>MakeDay\<close>\<close>

















subsection \<open>Trimming the fraction\<close>

text \<open>From here on \<open>matches\<close> is read through the facts above.\<close>

declare matches.simps [simp del]








subsection \<open>Parsing and formatting a date-only string\<close>


lemma digit_val_le: "is_digit c \<Longrightarrow> digit_val c \<le> 9"
  by (auto simp: is_digit_def digit_val_def Let_def)

lemma number2_le: "is_digit a \<Longrightarrow> is_digit b \<Longrightarrow> number [a, b] \<le> 99"
  using digit_val_le [of a] digit_val_le [of b] by (simp add: number_def)









lemma DaysInMonth_le_31: "DaysInMonth y m \<le> 31"
  by (simp add: DaysInMonth_def)

lemma is_digit_not_dash: "is_digit c \<Longrightarrow> c \<noteq> CHR ''-''"
  by (auto simp: is_digit_def)




subsection \<open>A fraction before a zone designator\<close>





















section \<open>The claims\<close>

subsection \<open>Reschedule: the request body\<close>

text \<open>
  C2. The claim: the request sent to POST /api/bookings/{bookingId}/reschedule carries
  new_flight_id together with the requested seat_class and seat_number. The handler
  passes the seat class and the seat number as third and fourth argument, but the API
  function has two parameters and builds the body from the second alone. At booking 7
  (economy, seat 12A), new flight 9, selected class business and selected seat 2C, the
  body is exactly \<open>{new_flight_id: 9}\<close>.
\<close>

theorem reschedule_body_drops_seat:
  "handleRescheduleBooking
     \<lparr>booking = \<lparr>mb_id = 7, mb_booking_status = ''confirmed'',
                  mb_seat_class = ''economy'', mb_seat_number = ''12A''\<rparr>,
      selectedNewFlight = Some \<lparr>fc_id = 9, fc_flight_number = ''GF105''\<rparr>,
      selectedSeatClass = Some ''business'',
      selectedSeatNumber = Some ''2C''\<rparr>
   = Inr \<lparr>req_method = ''POST'',
          req_url = ''/api/bookings/7/reschedule'',
          req_body = Some [(''new_flight_id'', JNum 9)]\<rparr>"
  by (simp add: handleRescheduleBooking_def rescheduleBooking_def arg_def API_BOOKINGS_def
      or_str_def show_int_def show_nat.simps)

subsection \<open>Check-in: the rewards summary\<close>

text \<open>
  C3. The claim: after a successful check-in whose answer has the body
  \<open>{loyalty_rewards, tier_upgrade}\<close>, \<open>handleCheckIn\<close> shows the rewards summary. The
  response interceptor has already reduced the answer to its body, and the handler
  reads \<open>response.data\<close> of that body, which the documented body does not have: the
  generic message is shown instead. Here for an answer that reports 4500 miles, 30
  points and an upgrade from SILVER to GOLD.
\<close>

theorem checkin_rewards_not_shown:
  "handleCheckIn
     (response_interceptor
        (Inr \<lparr>resp_status = 200,
              resp_data =
                \<lparr>loyalty_rewards =
                   Some \<lparr>miles_earned = 4500, points_earned = 30, flight_distance = 3000,
                         seat_class = ''business'', loyalty_tier = ''SILVER'',
                         total_miles = 12500, total_points = 1010\<rparr>,
                 tier_upgrade =
                   Some \<lparr>upgraded = True, old_tier = ''SILVER'', new_tier = ''GOLD'',
                         next_tier_threshold = None\<rparr>,
                 nested_data = None\<rparr>\<rparr>))
   = Alert ''Success'' ''Check-in completed successfully!''"
  by (simp add: handleCheckIn_def response_interceptor_def)

subsection \<open>Cancellation: one request, and no silent second success\<close>

text \<open>
  C4. For every loaded booking, \<open>handleCancelBooking\<close> sends the request
  DELETE /api/bookings/{id} exactly when the booking's status is not \<open>cancelled\<close>, and
  then sends it once. When the status is \<open>cancelled\<close> already, or the server answers
  with an already-cancelled error, the alert is the report that the booking has
  already been cancelled (so it is not the success alert), and nothing more is sent.
\<close>

theorem cancel_sends_iff_not_cancelled:
  "sent (handleCancelBooking b reply) =
     (if mb_booking_status b = ''cancelled'' then []
      else [\<lparr>req_method = ''DELETE'',
             req_url = ''/api/bookings/'' @ show_int (mb_id b),
             req_body = None\<rparr>])
   \<and> (mb_booking_status b = ''cancelled'' \<or> already_cancelled_answer reply \<longrightarrow>
        shown (handleCancelBooking b reply) =
          Alert ''Already Cancelled'' ''This booking has already been cancelled.'')"
proof -
  have req: "cancelBooking [JNum (mb_id b)] =
      \<lparr>req_method = ''DELETE'', req_url = ''/api/bookings/'' @ show_int (mb_id b),
       req_body = None\<rparr>"
    by (simp add: cancelBooking_def arg_def API_BOOKINGS_def)
  have sent: "sent (handleCancelBooking b reply) =
     (if mb_booking_status b = ''cancelled'' then [] else [cancelBooking [JNum (mb_id b)]])"
    by (simp add: handleCancelBooking_def split: sum.splits)
  have shown: "shown (handleCancelBooking b reply) =
      Alert ''Already Cancelled'' ''This booking has already been cancelled.''"
    if "mb_booking_status b \<noteq> ''cancelled''" "already_cancelled_answer reply"
  proof -
    from that(2) obtain e r where e: "reply = Inl e" "err_response e = Some r"
      and r: "status r \<noteq> 403" "status r \<noteq> 404"
        "str_includes (raw_message r) ''already cancelled''"
      by (auto simp: already_cancelled_answer_def split: sum.splits option.splits)
    have "response_interceptor reply = Inl (server_message r)"
      using e by (simp add: response_interceptor_def)
    then show ?thesis
      using that(1) server_message_already_cancelled [OF r]
      by (simp add: handleCancelBooking_def)
  qed
  show ?thesis
    using sent req shown by (auto simp: handleCancelBooking_def)
qed

text \<open>
  A cancelled booking: nothing is sent. A confirmed booking that the server reports
  as already cancelled (status 400): one DELETE, and the already-cancelled report.
\<close>

theorem cancel_sends_iff_not_cancelled_witness:
  "sent (handleCancelBooking
           \<lparr>mb_id = 7, mb_booking_status = ''cancelled'', mb_seat_class = ''economy'',
            mb_seat_number = ''12A''\<rparr>
           (Inr \<lparr>resp_status = 200, resp_data = ()\<rparr>)) = []
   \<and> shown (handleCancelBooking
           \<lparr>mb_id = 7, mb_booking_status = ''cancelled'', mb_seat_class = ''economy'',
            mb_seat_number = ''12A''\<rparr>
           (Inr \<lparr>resp_status = 200, resp_data = ()\<rparr>))
       = Alert ''Already Cancelled'' ''This booking has already been cancelled.''
   \<and> sent (handleCancelBooking
           \<lparr>mb_id = 7, mb_booking_status = ''confirmed'', mb_seat_class = ''economy'',
            mb_seat_number = ''12A''\<rparr>
           (Inl \<lparr>err_response =
                   Some \<lparr>status = 400,
                         data = Some \<lparr>detail = Some ''Booking is already cancelled'',
                                      body_message = None\<rparr>\<rparr>,
                 err_request = True, err_message = Some ''Request failed with status code 400''\<rparr>
            :: axios_error + unit http_response))
       = [\<lparr>req_method = ''DELETE'', req_url = ''/api/bookings/7'', req_body = None\<rparr>]
   \<and> shown (handleCancelBooking
           \<lparr>mb_id = 7, mb_booking_status = ''confirmed'', mb_seat_class = ''economy'',
            mb_seat_number = ''12A''\<rparr>
           (Inl \<lparr>err_response =
                   Some \<lparr>status = 400,
                         data = Some \<lparr>detail = Some ''Booking is already cancelled'',
                                      body_message = None\<rparr>\<rparr>,
                 err_request = True, err_message = Some ''Request failed with status code 400''\<rparr>
            :: axios_error + unit http_response))
       = Alert ''Already Cancelled'' ''This booking has already been cancelled.''"
proof -
  let ?b1 = "\<lparr>mb_id = 7, mb_booking_status = ''cancelled'', mb_seat_class = ''economy'',
            mb_seat_number = ''12A''\<rparr>"
  let ?b2 = "\<lparr>mb_id = 7, mb_booking_status = ''confirmed'', mb_seat_class = ''economy'',
            mb_seat_number = ''12A''\<rparr>"
  let ?ok = "Inr \<lparr>resp_status = 200, resp_data = ()\<rparr> :: axios_error + unit http_response"
  let ?err = "Inl \<lparr>err_response =
                   Some \<lparr>status = 400,
                         data = Some \<lparr>detail = Some ''Booking is already cancelled'',
                                      body_message = None\<rparr>\<rparr>,
                 err_request = True, err_message = Some ''Request failed with status code 400''\<rparr>
            :: axios_error + unit http_response"
  have a: "already_cancelled_answer ?err"
    by (simp add: already_cancelled_answer_def raw_message_def or_str_def)
  have s: "show_int 7 = ''7''"
    by (simp add: show_int_def show_nat.simps)
  show ?thesis
    using cancel_sends_iff_not_cancelled [of ?b1 ?ok]
      cancel_sends_iff_not_cancelled [of ?b2 ?err] a s
    by simp
qed

subsection \<open>The client: timeout and error messages\<close>

text \<open>
  C8, as stated: every failed call throws an error, with the fixed cannot-connect
  message when no response was received at all, and with a message derived from the
  answer when the server responded. The interceptor has a third branch: an error with
  neither a response nor a request (the call was never sent) is thrown with its own
  message. For such an error no response was received, and the message is not the
  cannot-connect message.
\<close>

theorem no_response_without_request_counterexample:
  "err_response \<lparr>err_response = None, err_request = False, err_message = Some ''Invalid URL''\<rparr>
     = None
   \<and> response_interceptor
        (Inl \<lparr>err_response = None, err_request = False, err_message = Some ''Invalid URL''\<rparr>
         :: axios_error + unit http_response)
       = Inl ''Invalid URL''
   \<and> ''Invalid URL'' \<noteq> cannot_connect"
  by (simp add: response_interceptor_def or_str_def cannot_connect_def)

text \<open>
  C8, amended. Every call that leaves the client is configured with the timeout of
  15000 ms. Every failed call throws an error. When the request was made and no
  response was received, the message is the fixed cannot-connect message; when no
  request was made either, it is the error's own message, or \<open>An unexpected error
  occurred\<close> when that is empty; when the server responded, it is derived from the
  answer: \<open>detail\<close>, else \<open>message\<close>, else the text with the HTTP status, or the fixed
  text for the status.
\<close>

theorem api_timeout_and_error_messages:
  fixes e :: axios_error
  defines "thrown \<equiv> response_interceptor (Inl e :: axios_error + unit http_response)"
  shows "cfg_timeout (outgoing g req) = 15000
   \<and> (\<exists>m. thrown = Inl m)
   \<and> (err_response e = None \<and> err_request e \<longrightarrow> thrown = Inl cannot_connect)
   \<and> (err_response e = None \<and> \<not> err_request e \<longrightarrow>
        thrown = Inl (or_str (err_message e) ''An unexpected error occurred''))
   \<and> (\<forall>r. err_response e = Some r \<longrightarrow>
        (\<exists>m. thrown = Inl m \<and> derived_from_response r m))"
proof -
  have "cfg_timeout (outgoing g req) = 15000"
    by (simp add: outgoing_def request_interceptor_def request_config_def apiClient_def
        split: option.splits)
  moreover have "\<exists>m. thrown = Inl m"
    by (simp add: thrown_def response_interceptor_def split: option.splits)
  moreover have "\<forall>r. err_response e = Some r \<longrightarrow>
        (\<exists>m. thrown = Inl m \<and> derived_from_response r m)"
    using derived_server_message by (simp add: thrown_def response_interceptor_def)
  ultimately show ?thesis
    by (simp add: thrown_def response_interceptor_def)
qed

text \<open>
  The logout call, a timed-out request (made, no response), and an answer 500 with a
  \<open>detail\<close>.
\<close>

theorem api_timeout_and_error_messages_witness:
  "cfg_timeout (outgoing None logout_api) = 15000
   \<and> response_interceptor
     (Inl \<lparr>err_response = None, err_request = True,
           err_message = Some ''timeout of 15000ms exceeded''\<rparr>
      :: axios_error + unit http_response)
     = Inl cannot_connect
   \<and> response_interceptor
     (Inl \<lparr>err_response =
             Some \<lparr>status = 500,
                   data = Some \<lparr>detail = Some ''Database unavailable'', body_message = None\<rparr>\<rparr>,
           err_request = True, err_message = Some ''Request failed with status code 500''\<rparr>
      :: axios_error + unit http_response)
     = Inl ''Database unavailable''"
proof -
  let ?e1 = "\<lparr>err_response = None, err_request = True,
           err_message = Some ''timeout of 15000ms exceeded''\<rparr>"
  let ?r = "\<lparr>status = 500,
             data = Some \<lparr>detail = Some ''Database unavailable'', body_message = None\<rparr>\<rparr>"
  let ?e2 = "\<lparr>err_response = Some ?r,
           err_request = True, err_message = Some ''Request failed with status code 500''\<rparr>"
  have d: "derived_from_response ?r m \<longleftrightarrow> m = ''Database unavailable''" for m
    by (simp add: derived_from_response_def raw_message_def or_str_def)
  show ?thesis
    using api_timeout_and_error_messages [of None logout_api ?e1]
      api_timeout_and_error_messages [of None logout_api ?e2] d
    by auto
qed

subsection \<open>My Trips: the bookings displayed\<close>

text \<open>
  C5. When the connection test succeeds, the user holds a token and GET /api/bookings
  returns the array \<open>bs\<close>, the cards of the screen are the transformed bookings of
  \<open>bs\<close> whose status is not \<open>cancelled\<close>, one card per such booking and in the order
  of \<open>bs\<close>; the screen is in its logged-in, loaded state, in which the cards are
  rendered. The statuses and booking references of the cards are those of the
  bookings kept, and every booking with another status (\<open>confirmed\<close>, \<open>checked_in\<close>)
  is kept. The filter runs on the client, over the full array.
\<close>

theorem my_trips_shows_active_bookings:
  fixes tz now :: int and bs :: "api_booking list" and st :: trips_state and g :: auth_token
  assumes "getAuthToken g = Some token"
  defines "st' \<equiv> loadUserBookings tz now (Inr True) g (Inr bs) st"
  shows "bookings st' =
           map (transform tz now) (filter (\<lambda>b. b_booking_status b \<noteq> ''cancelled'') bs)
   \<and> isLoggedIn st' \<and> \<not> isLoading st'
   \<and> map t_bookingStatus (bookings st') =
        filter (\<lambda>s. s \<noteq> ''cancelled'') (map b_booking_status bs)
   \<and> map t_bookingReference (bookings st') =
        map b_booking_reference (filter (\<lambda>b. b_booking_status b \<noteq> ''cancelled'') bs)
   \<and> length (bookings st') = length (filter (\<lambda>b. b_booking_status b \<noteq> ''cancelled'') bs)
   \<and> (\<forall>b \<in> set bs. b_booking_status b \<noteq> ''cancelled'' \<longrightarrow>
         transform tz now b \<in> set (bookings st'))"
proof -
  have b: "bookings st' =
           map (transform tz now) (filter (\<lambda>b. b_booking_status b \<noteq> ''cancelled'') bs)"
    and l: "isLoggedIn st' \<and> \<not> isLoading st'"
    using assms(1) by (simp_all add: st'_def loadUserBookings_def)
  have s: "map t_bookingStatus (bookings st') =
        filter (\<lambda>s. s \<noteq> ''cancelled'') (map b_booking_status bs)"
    unfolding b by (induction bs) (simp_all add: transform_def)
  have r: "map t_bookingReference (bookings st') =
        map b_booking_reference (filter (\<lambda>b. b_booking_status b \<noteq> ''cancelled'') bs)"
    unfolding b by (simp add: transform_def comp_def)
  have k: "\<forall>b \<in> set bs. b_booking_status b \<noteq> ''cancelled'' \<longrightarrow>
         transform tz now b \<in> set (bookings st')"
    unfolding b by simp
  show ?thesis using b l s r k by simp
qed

text \<open>
  Three bookings, confirmed, cancelled and checked in: the first and the third are
  displayed, in this order.
\<close>

theorem my_trips_shows_active_bookings_witness:
  "map t_bookingReference
     (bookings
        (loadUserBookings 10800000 1758672000000 (Inr True) (Some ''tok'')
           (Inr [\<lparr>b_id = 1, b_booking_reference = ''GF1'', b_booking_status = ''confirmed'',
                  b_seat_class = ''economy'', b_seat_number = ''12A'',
                  b_passenger_name = ''A'', b_total_price = JNum 120, b_flight = None\<rparr>,
                 \<lparr>b_id = 2, b_booking_reference = ''GF2'', b_booking_status = ''cancelled'',
                  b_seat_class = ''economy'', b_seat_number = ''12B'',
                  b_passenger_name = ''A'', b_total_price = JNum 120, b_flight = None\<rparr>,
                 \<lparr>b_id = 3, b_booking_reference = ''GF3'', b_booking_status = ''checked_in'',
                  b_seat_class = ''business'', b_seat_number = ''2C'',
                  b_passenger_name = ''A'', b_total_price = JNum 300, b_flight = None\<rparr>])
           \<lparr>bookings = [], isLoggedIn = False, isLoading = True\<rparr>))
   = [''GF1'', ''GF3'']"
proof -
  have t: "getAuthToken (Some ''tok'') = Some ''tok''"
    by (simp add: getAuthToken_def truthy_value_def truthy_str_def)
  show ?thesis
    using my_trips_shows_active_bookings [OF t, of 10800000 1758672000000
        "[\<lparr>b_id = 1, b_booking_reference = ''GF1'', b_booking_status = ''confirmed'',
                  b_seat_class = ''economy'', b_seat_number = ''12A'',
                  b_passenger_name = ''A'', b_total_price = JNum 120, b_flight = None\<rparr>,
                 \<lparr>b_id = 2, b_booking_reference = ''GF2'', b_booking_status = ''cancelled'',
                  b_seat_class = ''economy'', b_seat_number = ''12B'',
                  b_passenger_name = ''A'', b_total_price = JNum 120, b_flight = None\<rparr>,
                 \<lparr>b_id = 3, b_booking_reference = ''GF3'', b_booking_status = ''checked_in'',
                  b_seat_class = ''business'', b_seat_number = ''2C'',
                  b_passenger_name = ''A'', b_total_price = JNum 300, b_flight = None\<rparr>]"
        "\<lparr>bookings = [], isLoggedIn = False, isLoading = True\<rparr>",
        THEN conjunct2, THEN conjunct2, THEN conjunct2, THEN conjunct2, THEN conjunct1]
    by simp
qed

subsection \<open>Confirming a booking: validation\<close>

text \<open>
  C7, as stated: the handler invokes \<open>createBooking\<close>, and hence sends
  POST /api/bookings, exactly when the form is valid. \<open>createBooking\<close> first asks for
  the token and sends nothing without one: for a valid form and no token the handler
  invokes \<open>createBooking\<close>, which shows the alert \<open>Authentication Required\<close>, and no
  request is sent.
\<close>

theorem valid_form_without_token_counterexample:
  "form_valid \<lparr>passengerName = ''Ali'', passengerEmail = ''ali@example.com'',
                passportNumber = ''P123'', selectedSeat = Some ''2C''\<rparr>
   \<and> pr_createBooking_invoked
        (press_confirm None \<lparr>sf_id = 9, economyPrice = JNum 120, businessPrice = JNum 300\<rparr>
           ''economy''
           \<lparr>passengerName = ''Ali'', passengerEmail = ''ali@example.com'',
            passportNumber = ''P123'', selectedSeat = Some ''2C''\<rparr>)
   \<and> pr_sent
        (press_confirm None \<lparr>sf_id = 9, economyPrice = JNum 120, businessPrice = JNum 300\<rparr>
           ''economy''
           \<lparr>passengerName = ''Ali'', passengerEmail = ''ali@example.com'',
            passportNumber = ''P123'', selectedSeat = Some ''2C''\<rparr>) = []
   \<and> pr_alert
        (press_confirm None \<lparr>sf_id = 9, economyPrice = JNum 120, businessPrice = JNum 300\<rparr>
           ''economy''
           \<lparr>passengerName = ''Ali'', passengerEmail = ''ali@example.com'',
            passportNumber = ''P123'', selectedSeat = Some ''2C''\<rparr>)
       = Some (Alert ''Authentication Required'' ''Please log in to create a booking.'')"
  by code_simp

text \<open>
  C7, amended. The handler invokes \<open>createBooking\<close> exactly when name, email and
  passport number are not blank, a seat is selected and the email matches the pattern.
  A request is sent exactly when moreover the user holds a token, and then it is one
  POST /api/bookings; for a valid form without a token \<open>createBooking\<close> shows the
  alert \<open>Authentication Required\<close> and sends nothing. Whenever a condition of the form
  fails, one of the five validation alerts is shown and nothing is sent.
\<close>

theorem confirm_creates_booking_iff_valid:
  fixes form :: booking_form and g :: auth_token and fl :: selected_flight and sc :: string
  defines "res \<equiv> press_confirm g fl sc form"
  shows "(pr_createBooking_invoked res \<longleftrightarrow> form_valid form)
   \<and> (pr_sent res \<noteq> [] \<longleftrightarrow> form_valid form \<and> truthy_str g)
   \<and> (\<forall>r \<in> set (pr_sent res).
         req_method r = ''POST'' \<and> req_url r = ''/api/bookings'' \<and> pr_sent res = [r])
   \<and> (form_valid form \<and> \<not> truthy_str g \<longrightarrow>
         pr_alert res = Some (Alert ''Authentication Required''
                                ''Please log in to create a booking.'')
         \<and> pr_sent res = [])
   \<and> (\<not> form_valid form \<longrightarrow>
         (\<exists>m \<in> set [''Please enter passenger name'', ''Please enter email address'',
                     ''Please enter passport number'', ''Please select a seat'',
                     ''Please enter a valid email address''].
            pr_alert res = Some (Alert ''Validation Error'' m))
         \<and> pr_sent res = [])"
proof (cases "form_valid form")
  case True
  then obtain seat where seat: "truthy_value (selectedSeat form) = Some seat"
    using truthy_value_Some_iff [of "selectedSeat form"] by (auto simp: form_valid_def)
  from True seat obtain bd where bd: "confirmBooking_onPress form = Inr bd"
    by (simp add: form_valid_def confirmBooking_onPress_def)
  show ?thesis
  proof (cases "truthy_str g")
    case True
    then obtain token where "getAuthToken g = Some token"
      using truthy_value_Some_iff [of g] by (auto simp: getAuthToken_def)
    then show ?thesis
      using \<open>form_valid form\<close> bd True
      by (simp add: res_def press_confirm_def createBooking_def createBooking_api_def
          API_CREATE_BOOKING_def Let_def)
  next
    case False
    then have "getAuthToken g = None"
      by (simp add: getAuthToken_def truthy_value_def)
    then show ?thesis
      using \<open>form_valid form\<close> bd False
      by (simp add: res_def press_confirm_def createBooking_def)
  qed
next
  case False
  from validation_alert [OF False] obtain m where
    m: "m \<in> set [''Please enter passenger name'', ''Please enter email address'',
                    ''Please enter passport number'', ''Please select a seat'',
                    ''Please enter a valid email address'']"
    and c: "confirmBooking_onPress form = Inl (Alert ''Validation Error'' m)"
    by blast
  have "pr_alert res = Some (Alert ''Validation Error'' m)" "pr_sent res = []"
    "\<not> pr_createBooking_invoked res"
    by (simp_all add: res_def press_confirm_def c)
  then show ?thesis
    using False m by auto
qed

text \<open>
  A valid form with a token: the booking is created and a request is sent. The same
  form without a token: the alert \<open>Authentication Required\<close>, and nothing is sent. The
  form with an email without a dot after the \<open>@\<close>, with a token: a validation alert,
  and nothing is created or sent.
\<close>

theorem confirm_creates_booking_iff_valid_witness:
  "pr_createBooking_invoked
     (press_confirm (Some ''jwt'') \<lparr>sf_id = 9, economyPrice = JNum 120, businessPrice = JNum 300\<rparr>
        ''falcon_gold''
        \<lparr>passengerName = ''Ali'', passengerEmail = ''ali@example.com'',
         passportNumber = ''P123'', selectedSeat = Some ''2C''\<rparr>)
   \<and> pr_sent
     (press_confirm (Some ''jwt'') \<lparr>sf_id = 9, economyPrice = JNum 120, businessPrice = JNum 300\<rparr>
        ''falcon_gold''
        \<lparr>passengerName = ''Ali'', passengerEmail = ''ali@example.com'',
         passportNumber = ''P123'', selectedSeat = Some ''2C''\<rparr>) \<noteq> []
   \<and> pr_alert
     (press_confirm None \<lparr>sf_id = 9, economyPrice = JNum 120, businessPrice = JNum 300\<rparr>
        ''falcon_gold''
        \<lparr>passengerName = ''Ali'', passengerEmail = ''ali@example.com'',
         passportNumber = ''P123'', selectedSeat = Some ''2C''\<rparr>)
       = Some (Alert ''Authentication Required'' ''Please log in to create a booking.'')
   \<and> pr_sent
     (press_confirm None \<lparr>sf_id = 9, economyPrice = JNum 120, businessPrice = JNum 300\<rparr>
        ''falcon_gold''
        \<lparr>passengerName = ''Ali'', passengerEmail = ''ali@example.com'',
         passportNumber = ''P123'', selectedSeat = Some ''2C''\<rparr>) = []
   \<and> \<not> pr_createBooking_invoked
     (press_confirm (Some ''jwt'') \<lparr>sf_id = 9, economyPrice = JNum 120, businessPrice = JNum 300\<rparr>
        ''falcon_gold''
        \<lparr>passengerName = ''Ali'', passengerEmail = ''ali@example'',
         passportNumber = ''P123'', selectedSeat = Some ''2C''\<rparr>)
   \<and> pr_sent
     (press_confirm (Some ''jwt'') \<lparr>sf_id = 9, economyPrice = JNum 120, businessPrice = JNum 300\<rparr>
        ''falcon_gold''
        \<lparr>passengerName = ''Ali'', passengerEmail = ''ali@example'',
         passportNumber = ''P123'', selectedSeat = Some ''2C''\<rparr>) = []"
proof -
  let ?fl = "\<lparr>sf_id = 9, economyPrice = JNum 120, businessPrice = JNum 300\<rparr>"
  let ?good = "\<lparr>passengerName = ''Ali'', passengerEmail = ''ali@example.com'',
         passportNumber = ''P123'', selectedSeat = Some ''2C''\<rparr>"
  let ?bad = "\<lparr>passengerName = ''Ali'', passengerEmail = ''ali@example'',
         passportNumber = ''P123'', selectedSeat = Some ''2C''\<rparr>"
  have v: "form_valid ?good" by code_simp
  have n: "\<not> form_valid ?bad" by code_simp
  have t: "truthy_str (Some ''jwt'')" "\<not> truthy_str None" by (simp_all add: truthy_str_def)
  show ?thesis
    using confirm_creates_booking_iff_valid [of "Some ''jwt''" ?fl "''falcon_gold''" ?good]
      confirm_creates_booking_iff_valid [of None ?fl "''falcon_gold''" ?good]
      confirm_creates_booking_iff_valid [of "Some ''jwt''" ?fl "''falcon_gold''" ?bad] v n t
    by simp
qed

subsection \<open>The auth token\<close>

text \<open>
  C9. A login sets the token to the token of the server's answer, and only when the
  login went through and the answer contains a (truthy) token: with an answer without
  a token, or a failed call, the token stays as it was, and whenever a login changes
  the token the new token is the answer's. A logout sets it to \<open>null\<close>. A call through
  the client leaves the token as it is, and only a login or a logout changes it. After
  any sequence of these operations from the start of the application, the request
  interceptor sets the header \<open>Authorization: Bearer <token>\<close> on an outgoing request
  exactly when the stored token is not \<open>null\<close>; with no token the request leaves with
  the client's defaults.
\<close>

theorem auth_token_lifecycle:
  fixes form :: login_form and ops :: "app_op list"
  shows "(login_form_complete form \<and> c \<and> t \<noteq> [] \<longrightarrow>
            fst (handleLogin form c (Inr (Some t)) g) = Some t)
   \<and> fst (handleLogin form c (Inr None) g) = g
   \<and> fst (handleLogin form c (Inl m) g) = g
   \<and> (fst (handleLogin form c reply g) \<noteq> g \<longrightarrow>
         (\<exists>t. reply = Inr (Some t) \<and> fst (handleLogin form c reply g) = Some t))
   \<and> fst (handleLogout g) = None
   \<and> token_after g (ApiCall r) = g
   \<and> (token_after g x \<noteq> g \<longrightarrow> (\<exists>f c' rep. x = Login f c' rep) \<or> x = Logout)
   \<and> cfg_headers (outgoing (run_ops ops) r) ''Authorization'' =
        (case run_ops ops of None \<Rightarrow> None | Some tok \<Rightarrow> Some (''Bearer '' @ tok))
   \<and> (run_ops ops = None \<longrightarrow> outgoing (run_ops ops) r = request_config r)"
proof -
  have 1: "login_form_complete form \<and> c \<and> t \<noteq> [] \<longrightarrow>
            fst (handleLogin form c (Inr (Some t)) g) = Some t"
    by (simp add: handleLogin_token)
  have 2: "fst (handleLogin form c (Inr None) g) = g" "fst (handleLogin form c (Inl m) g) = g"
    by (simp_all add: handleLogin_token)
  have 3: "fst (handleLogin form c reply g) \<noteq> g \<longrightarrow>
         (\<exists>t. reply = Inr (Some t) \<and> fst (handleLogin form c reply g) = Some t)"
    by (auto simp: handleLogin_token split: sum.splits option.splits if_splits)
  have 4: "fst (handleLogout g) = None"
    by (simp add: handleLogout_def clearAuthToken_def)
  have 5: "token_after g x \<noteq> g \<longrightarrow> (\<exists>f c' rep. x = Login f c' rep) \<or> x = Logout"
    by (cases x) simp_all
  have 6: "cfg_headers (outgoing (run_ops ops) r) ''Authorization'' =
        (case run_ops ops of None \<Rightarrow> None | Some tok \<Rightarrow> Some (''Bearer '' @ tok))"
    using run_ops_not_empty [of ops]
    by (simp add: outgoing_authorization split: option.splits)
  have 7: "run_ops ops = None \<longrightarrow> outgoing (run_ops ops) r = request_config r"
    by (simp add: outgoing_def request_interceptor_def getAuthToken_def truthy_value_cases)
  show ?thesis
    using 1 2 3 4 5 6 7 by simp
qed

text \<open>
  A login by email that the server answers with the token \<open>jwt\<close>, then a call: the
  call carries \<open>Bearer jwt\<close>. After the logout that follows, a call carries no
  \<open>Authorization\<close> header.
\<close>

theorem auth_token_lifecycle_witness:
  "run_ops [Login \<lparr>lf_isLoading = False, loginMethod = ''email'', falconFlyerNumber = '''',
                   email = ''ali@example.com'', password = ''secret''\<rparr>
              True (Inr (Some ''jwt''))] = Some ''jwt''
   \<and> cfg_headers
        (outgoing
           (run_ops [Login \<lparr>lf_isLoading = False, loginMethod = ''email'',
                            falconFlyerNumber = '''', email = ''ali@example.com'',
                            password = ''secret''\<rparr>
                       True (Inr (Some ''jwt''))])
           (checkIn [JNum 7]))
        ''Authorization'' = Some ''Bearer jwt''
   \<and> cfg_headers
        (outgoing
           (run_ops [Login \<lparr>lf_isLoading = False, loginMethod = ''email'',
                            falconFlyerNumber = '''', email = ''ali@example.com'',
                            password = ''secret''\<rparr>
                       True (Inr (Some ''jwt'')),
                     ApiCall (checkIn [JNum 7]),
                     Logout])
           (checkIn [JNum 7]))
        ''Authorization'' = None"
proof -
  let ?login = "Login \<lparr>lf_isLoading = False, loginMethod = ''email'', falconFlyerNumber = '''',
                   email = ''ali@example.com'', password = ''secret''\<rparr>
              True (Inr (Some ''jwt''))"
  have a: "run_ops [?login] = Some ''jwt''" by code_simp
  have b: "run_ops [?login, ApiCall (checkIn [JNum 7]), Logout] = None" by code_simp
  show ?thesis
    using auth_token_lifecycle [where ops = "[?login]" and r = "checkIn [JNum 7]"]
      auth_token_lifecycle [where ops = "[?login, ApiCall (checkIn [JNum 7]), Logout]"
        and r = "checkIn [JNum 7]"] a b
    by (simp add: request_config_def apiClient_def)
qed

subsection \<open>Check-in: the window\<close>

text \<open>
  C1. For every booking status \<open>s\<close> and departure time \<open>d\<close>, \<open>canCheckIn\<close> holds
  exactly when \<open>s\<close> is \<open>confirmed\<close> and the hours until departure, taken from \<open>d\<close>
  with its fraction trimmed, are more than 0 and at most 24: in milliseconds, the
  departure is after now and at most 86400000 ms after. Exactly 24 hours are allowed,
  more than 24 are not, 0 and less are not; a departure time that is not a date gives
  no hours and no check-in.
\<close>

theorem canCheckIn_window:
  "(canCheckIn tz now d s \<longleftrightarrow>
      s = ''confirmed'' \<and> (\<exists>h. hoursUntilDeparture tz now d = Some h \<and> 0 < h \<and> h \<le> 24))
   \<and> (canCheckIn tz now d s \<longleftrightarrow>
      s = ''confirmed''
      \<and> (\<exists>t. departure_Date tz d = Some t \<and> now < t \<and> t \<le> now + 24 * 3600000))
   \<and> (hoursUntilDeparture tz now d = Some 24 \<longrightarrow> canCheckIn tz now d ''confirmed'')
   \<and> (\<forall>h. hoursUntilDeparture tz now d = Some h \<and> (h > 24 \<or> h \<le> 0) \<longrightarrow>
         \<not> canCheckIn tz now d s)"
proof -
  have a: "canCheckIn tz now d s' \<longleftrightarrow>
      s' = ''confirmed'' \<and> (\<exists>h. hoursUntilDeparture tz now d = Some h \<and> 0 < h \<and> h \<le> 24)"
    for s'
    by (auto simp: canCheckIn_def split: option.splits)
  have b: "(\<exists>h. hoursUntilDeparture tz now d = Some h \<and> 0 < h \<and> h \<le> 24) \<longleftrightarrow>
      (\<exists>t. departure_Date tz d = Some t \<and> now < t \<and> t \<le> now + 24 * 3600000)"
  proof (cases "departure_Date tz d")
    case None
    then show ?thesis by (simp add: hoursUntilDeparture_alt)
  next
    case (Some t)
    define q :: rat where "q = of_int (t - now) / (1000 * 60 * 60)"
    have h: "hoursUntilDeparture tz now d = Some q"
      using Some by (simp add: hoursUntilDeparture_alt q_def)
    have "0 < q \<and> q \<le> 24 \<longleftrightarrow> now < t \<and> t \<le> now + 24 * 3600000"
      unfolding q_def using hours_le_24 [of "t - now"] hours_gt_0 [of "t - now"] by auto
    moreover have "(\<exists>h. Some q = Some h \<and> 0 < h \<and> h \<le> 24) \<longleftrightarrow> 0 < q \<and> q \<le> 24"
      by auto
    ultimately show ?thesis
      unfolding h Some by simp
  qed
  have c: "hoursUntilDeparture tz now d = Some 24 \<longrightarrow> canCheckIn tz now d ''confirmed''"
    by (simp add: a)
  have e: "\<forall>h. hoursUntilDeparture tz now d = Some h \<and> (h > 24 \<or> h \<le> 0) \<longrightarrow>
         \<not> canCheckIn tz now d s"
    by (auto simp: a)
  show ?thesis
    using a [of s] b c e by simp
qed

text \<open>
  Now is 2025-09-24T00:00:00Z, the local time is UTC. A confirmed booking that departs
  in exactly 24 hours can be checked in; one millisecond later it cannot; a departure
  at this very moment cannot; a booking already checked in cannot.
\<close>

theorem canCheckIn_window_witness:
  "canCheckIn 0 1758672000000 (JStr ''2025-09-25T00:00:00.000000'') ''confirmed''
   \<and> hoursUntilDeparture 0 1758672000000 (JStr ''2025-09-25T00:00:00.000000'') = Some 24
   \<and> \<not> canCheckIn 0 1758672000000 (JStr ''2025-09-25T00:00:00.001000'') ''confirmed''
   \<and> \<not> canCheckIn 0 1758672000000 (JStr ''2025-09-24T00:00:00.000000'') ''confirmed''
   \<and> \<not> canCheckIn 0 1758672000000 (JStr ''2025-09-24T12:00:00.000000'') ''checked_in''"
proof -
  have h1: "hoursUntilDeparture 0 1758672000000 (JStr ''2025-09-25T00:00:00.000000'') = Some 24"
    by code_simp
  have h2: "hoursUntilDeparture 0 1758672000000 (JStr ''2025-09-25T00:00:00.001000'')
      = Some (86400001 / 3600000)"
    by code_simp
  have h3: "hoursUntilDeparture 0 1758672000000 (JStr ''2025-09-24T00:00:00.000000'') = Some 0"
    by code_simp
  show ?thesis
    using canCheckIn_window [of 0 1758672000000 "JStr ''2025-09-25T00:00:00.000000''" "''confirmed''"]
      canCheckIn_window [of 0 1758672000000 "JStr ''2025-09-25T00:00:00.001000''" "''confirmed''"]
      canCheckIn_window [of 0 1758672000000 "JStr ''2025-09-24T00:00:00.000000''" "''confirmed''"]
      canCheckIn_window [of 0 1758672000000 "JStr ''2025-09-24T12:00:00.000000''" "''checked_in''"]
      h1 h2 h3
    by simp
qed

subsection \<open>Check-in: the button and the message\<close>

text \<open>
  C10. The claim: for every departure time and every status, \<open>canCheckIn\<close> holds
  exactly when \<open>getCheckInMessage\<close> is \<open>You can check-in now!\<close>. The two functions
  disagree where the departure time is not a date (the booking has no flight, or the
  string does not parse): every comparison with \<open>NaN\<close> is false, so the button is
  disabled and the message falls through to \<open>You can check-in now!\<close>. They disagree
  as well for a status other than the three known ones inside the window: the button
  asks for \<open>confirmed\<close>, the message only excludes \<open>checked_in\<close> and \<open>cancelled\<close>.
  Now is 2025-09-24T00:00:00Z, the local time is three hours ahead of UTC.
\<close>

theorem checkin_button_and_message_disagree:
  "canCheckIn 10800000 1758672000000 JUndefined ''confirmed'' = False
   \<and> getCheckInMessage 10800000 1758672000000 JUndefined ''confirmed'' = ''You can check-in now!''
   \<and> canCheckIn 10800000 1758672000000 (JStr ''not a date'') ''confirmed'' = False
   \<and> getCheckInMessage 10800000 1758672000000 (JStr ''not a date'') ''confirmed''
       = ''You can check-in now!''
   \<and> canCheckIn 10800000 1758672000000 (JStr ''2025-09-24T12:00:00'') ''pending'' = False
   \<and> getCheckInMessage 10800000 1758672000000 (JStr ''2025-09-24T12:00:00'') ''pending''
       = ''You can check-in now!''"
  by code_simp

subsection \<open>Dates: long fractions and date-only strings\<close>



end
